theory Spec2Isabelle
  imports Main
begin

section \<open>Go values\<close>

text \<open>
  A Go \<^verbatim>\<open>string\<close> and a \<^verbatim>\<open>[]byte\<close> are byte sequences; both are \<^typ>\<open>string\<close> here
  (an Isabelle \<^typ>\<open>char\<close> is one byte). A nil \<^verbatim>\<open>[]byte\<close> is \<^term>\<open>None\<close>.
  A Go \<^verbatim>\<open>error\<close> value is \<^typ>\<open>string option\<close>: \<^verbatim>\<open>errors.New(msg)\<close> is \<^term>\<open>Some msg\<close>,
  nil is \<^term>\<open>None\<close>.

  Every function of the chaincode returns \<^verbatim>\<open>([]byte, error)\<close>, and returns nil bytes
  whenever it returns an error; a run-time panic (index out of range) ends the call
  without a return value. The outcome of a call is therefore \<open>Inr bytes\<close>,
  \<open>Inl (Error msg)\<close> or \<open>Inl (Panic msg)\<close>.
\<close>

type_synonym bytes = string

datatype error = Error string | Panic string

type_synonym result = "error + bytes option"

definition index_out_of_range :: error where
  "index_out_of_range = Panic ''runtime error: index out of range''"

section \<open>The ledger\<close>

text \<open>
  Modelled from the spec: the ledger primitives \<^verbatim>\<open>stub.GetState\<close> and \<^verbatim>\<open>stub.PutState\<close>
  of \<^verbatim>\<open>shim.ChaincodeStubInterface\<close>, which is not part of the sources. The spec gives
  \<^verbatim>\<open>get(key) -> bytes | absence-signal\<close> and \<^verbatim>\<open>put(key, bytes) -> success | failure-signal\<close>.
  The world state is a map from keys to byte strings. Absence is the nil byte slice
  returned without an error, which is what \<^verbatim>\<open>create_supplyItem\<close> tests
  (\<^verbatim>\<open>record != nil\<close>). Whether a primitive reports a failure is a parameter of the
  ledger: \<open>get_fails\<close> says for which keys a get fails, \<open>put_fails\<close> for which keys and
  values a put fails; neither changes when the chaincode runs. A failed get returns nil
  bytes with its error, and a failed put leaves the world state as it was.
\<close>

record stub =
  State :: "string \<Rightarrow> bytes option"
  get_fails :: "string \<Rightarrow> bool"
  put_fails :: "string \<Rightarrow> bytes \<Rightarrow> bool"

definition GetState :: "stub \<Rightarrow> string \<Rightarrow> bytes option \<times> string option" where
  "GetState stub key =
     (if get_fails stub key then (None, Some ''GetState failed'') else (State stub key, None))"

definition PutState :: "stub \<Rightarrow> string \<Rightarrow> bytes \<Rightarrow> stub \<times> string option" where
  "PutState stub key val =
     (if put_fails stub key val then (stub, Some ''PutState failed'')
      else (stub\<lparr>State := (State stub)(key \<mapsto> val)\<rparr>, None))"

section \<open>UTF-8, as package unicode/utf8 decodes and encodes it\<close>

definition RuneError :: nat where
  "RuneError = 0xFFFD"

definition between :: "nat \<Rightarrow> char \<Rightarrow> nat \<Rightarrow> bool" where
  "between lo c hi = (lo \<le> of_char c \<and> (of_char c :: nat) \<le> hi)"

text \<open>\<^verbatim>\<open>utf8.DecodeRune\<close>: the first rune of the input and its width in bytes; an
  ill-formed or truncated sequence is \<open>(RuneError, 1)\<close>.\<close>

fun DecodeRune :: "string \<Rightarrow> nat \<times> nat" where
  "DecodeRune [] = (RuneError, 0)"
| "DecodeRune (c0 # cs) =
    (let b0 = of_char c0 :: nat in
     if b0 < 0x80 then (b0, 1)
     else if 0xC2 \<le> b0 \<and> b0 \<le> 0xDF then
       (case cs of
          c1 # _ \<Rightarrow>
            if between 0x80 c1 0xBF
            then ((b0 mod 0x20) * 0x40 + of_char c1 mod 0x40, 2)
            else (RuneError, 1)
        | _ \<Rightarrow> (RuneError, 1))
     else if 0xE0 \<le> b0 \<and> b0 \<le> 0xEF then
       (case cs of
          c1 # c2 # _ \<Rightarrow>
            if between (if b0 = 0xE0 then 0xA0 else 0x80) c1 (if b0 = 0xED then 0x9F else 0xBF)
               \<and> between 0x80 c2 0xBF
            then ((b0 mod 0x10) * 0x1000 + (of_char c1 mod 0x40) * 0x40 + of_char c2 mod 0x40, 3)
            else (RuneError, 1)
        | _ \<Rightarrow> (RuneError, 1))
     else if 0xF0 \<le> b0 \<and> b0 \<le> 0xF4 then
       (case cs of
          c1 # c2 # c3 # _ \<Rightarrow>
            if between (if b0 = 0xF0 then 0x90 else 0x80) c1 (if b0 = 0xF4 then 0x8F else 0xBF)
               \<and> between 0x80 c2 0xBF \<and> between 0x80 c3 0xBF
            then ((b0 mod 0x08) * 0x40000 + (of_char c1 mod 0x40) * 0x1000
                  + (of_char c2 mod 0x40) * 0x40 + of_char c3 mod 0x40, 4)
            else (RuneError, 1)
        | _ \<Rightarrow> (RuneError, 1))
     else (RuneError, 1))"

text \<open>\<^verbatim>\<open>utf8.EncodeRune\<close>: a surrogate or a value above U+10FFFF is written as U+FFFD.\<close>

definition EncodeRune :: "nat \<Rightarrow> string" where
  "EncodeRune r =
    (if r < 0x80 then [char_of r]
     else if r < 0x800 then [char_of (0xC0 + r div 0x40), char_of (0x80 + r mod 0x40)]
     else if (0xD800 \<le> r \<and> r < 0xE000) \<or> 0x10FFFF < r then
       [char_of (0xEF::nat), char_of (0xBF::nat), char_of (0xBD::nat)]
     else if r < 0x10000 then
       [char_of (0xE0 + r div 0x1000), char_of (0x80 + (r div 0x40) mod 0x40),
        char_of (0x80 + r mod 0x40)]
     else
       [char_of (0xF0 + r div 0x40000), char_of (0x80 + (r div 0x1000) mod 0x40),
        char_of (0x80 + (r div 0x40) mod 0x40), char_of (0x80 + r mod 0x40)])"

section \<open>Package encoding/json: writing\<close>

text \<open>
  \<^verbatim>\<open>json.Marshal\<close> writes a string between double quotes. A byte below 0x80 is copied
  when it is at least 0x20 and none of the backslash, the double quote, \<^verbatim>\<open><\<close>, \<^verbatim>\<open>>\<close>
  and \<^verbatim>\<open>&\<close>; the others are escaped. An ill-formed UTF-8 byte is written as the escape
  of U+FFFD, the runes U+2028 and U+2029 are escaped, every other rune is copied. This is
  the encoder of the Go releases of 2016, the year of the sources: the bytes 0x08 and 0x0C
  are written as \<^verbatim>\<open>u0008\<close> and \<^verbatim>\<open>u000c\<close> escapes.
\<close>

definition hex :: string where
  "hex = ''0123456789abcdef''"

definition backslash :: char where
  "backslash = CHR 0x5C"

definition dquote :: char where
  "dquote = CHR 0x22"

definition htmlSafe :: "char \<Rightarrow> bool" where
  "htmlSafe c = (0x20 \<le> (of_char c :: nat) \<and> (of_char c :: nat) < 0x80 \<and> c \<noteq> backslash
     \<and> c \<noteq> dquote \<and> c \<noteq> CHR ''<'' \<and> c \<noteq> CHR ''>'' \<and> c \<noteq> CHR ''&'')"

fun encode_chars :: "string \<Rightarrow> string" where
  "encode_chars [] = []"
| "encode_chars (c # cs) =
    (if (of_char c :: nat) < 0x80 then
       (if htmlSafe c then [c]
        else if c = backslash \<or> c = dquote then [backslash, c]
        else if c = CHR 0x0A then [backslash, CHR ''n'']
        else if c = CHR 0x0D then [backslash, CHR ''r'']
        else if c = CHR 0x09 then [backslash, CHR ''t'']
        else [backslash, CHR ''u'', CHR ''0'', CHR ''0'',
              hex ! (of_char c div 16), hex ! (of_char c mod 16)])
       @ encode_chars cs
     else
       (case DecodeRune (c # cs) of
          (r, w) \<Rightarrow>
            if r = RuneError \<and> w = 1 then backslash # ''ufffd'' @ encode_chars cs
            else if r = 0x2028 \<or> r = 0x2029 then
              backslash # ''u202'' @ [hex ! (r mod 16)] @ encode_chars (drop (w - 1) cs)
            else c # take (w - 1) cs @ encode_chars (drop (w - 1) cs)))"

definition encode_string :: "string \<Rightarrow> string" where
  "encode_string s = dquote # encode_chars s @ [dquote]"

section \<open>Package encoding/json: reading\<close>

text \<open>
  \<^verbatim>\<open>json.Unmarshal\<close> first checks that the whole input is one JSON value, and only then
  decodes it. Here the input is cut into tokens (\<open>lex\<close>), the tokens are read as a value
  (\<open>parse_value\<close>), and \<open>decode\<close> is \<^term>\<open>None\<close> exactly when the input is not one JSON
  value. A string literal is decoded as \<^verbatim>\<open>unquote\<close> does: the escapes are replaced, a pair
  of surrogate escapes is one rune, a lone surrogate escape and every ill-formed UTF-8 byte
  become U+FFFD.
\<close>

definition hexval :: "char \<Rightarrow> nat option" where
  "hexval c =
     (let b = of_char c :: nat in
      if 0x30 \<le> b \<and> b \<le> 0x39 then Some (b - 0x30)
      else if 0x61 \<le> b \<and> b \<le> 0x66 then Some (b - 0x61 + 10)
      else if 0x41 \<le> b \<and> b \<le> 0x46 then Some (b - 0x41 + 10)
      else None)"

text \<open>\<^verbatim>\<open>getu4\<close>: the value of a \<open>\uXXXX\<close> escape at the head of the input.\<close>

definition getu4 :: "string \<Rightarrow> nat option" where
  "getu4 s =
     (case s of
        b # u # h1 # h2 # h3 # h4 # _ \<Rightarrow>
          if b = backslash \<and> u = CHR ''u'' then
            (case (hexval h1, hexval h2, hexval h3, hexval h4) of
               (Some x1, Some x2, Some x3, Some x4) \<Rightarrow> Some (((x1 * 16 + x2) * 16 + x3) * 16 + x4)
             | _ \<Rightarrow> None)
          else None
      | _ \<Rightarrow> None)"

definition unescape :: "char \<Rightarrow> char option" where
  "unescape e =
     (if e = dquote \<or> e = backslash \<or> e = CHR ''/'' then Some e
      else if e = CHR ''b'' then Some (CHR 0x08)
      else if e = CHR ''f'' then Some (CHR 0x0C)
      else if e = CHR ''n'' then Some (CHR 0x0A)
      else if e = CHR ''r'' then Some (CHR 0x0D)
      else if e = CHR ''t'' then Some (CHR 0x09)
      else None)"

definition prepend :: "string \<Rightarrow> (string \<times> string) option \<Rightarrow> (string \<times> string) option" where
  "prepend p r = (case r of None \<Rightarrow> None | Some (s, rest) \<Rightarrow> Some (p @ s, rest))"

fun lex_string :: "string \<Rightarrow> (string \<times> string) option" where
  "lex_string [] = None"
| "lex_string (c # cs) =
    (if c = dquote then Some ([], cs)
     else if c = backslash then
       (case cs of
          [] \<Rightarrow> None
        | e # cs' \<Rightarrow>
            if e = CHR ''u'' then
              (case getu4 (c # cs) of
                 None \<Rightarrow> None
               | Some rr \<Rightarrow>
                   if 0xD800 \<le> rr \<and> rr < 0xE000 then
                     (case getu4 (drop 4 cs') of
                        Some rr1 \<Rightarrow>
                          if rr < 0xDC00 \<and> 0xDC00 \<le> rr1 \<and> rr1 < 0xE000 then
                            prepend (EncodeRune ((rr - 0xD800) * 0x400 + (rr1 - 0xDC00) + 0x10000))
                              (lex_string (drop 10 cs'))
                          else prepend (EncodeRune RuneError) (lex_string (drop 4 cs'))
                      | None \<Rightarrow> prepend (EncodeRune RuneError) (lex_string (drop 4 cs')))
                   else prepend (EncodeRune rr) (lex_string (drop 4 cs')))
            else
              (case unescape e of
                 None \<Rightarrow> None
               | Some d \<Rightarrow> prepend [d] (lex_string cs')))
     else if (of_char c :: nat) < 0x20 then None
     else if (of_char c :: nat) < 0x80 then prepend [c] (lex_string cs)
     else
       (case DecodeRune (c # cs) of
          (r, w) \<Rightarrow> prepend (EncodeRune r) (lex_string (drop (w - 1) cs))))"

lemma prepend_Some: "prepend p x = Some (d, r) \<longleftrightarrow> (\<exists>s. x = Some (s, r) \<and> d = p @ s)"
  by (auto simp: prepend_def split: option.splits)

lemma lex_string_shorter: "lex_string s = Some (d, r) \<Longrightarrow> length r < length s"
proof (induction s arbitrary: d r rule: lex_string.induct)
  case 1
  then show ?case by simp
next
  case (2 c cs)
  show ?case
    using "2.prems" "2.IH"
    by (fastforce simp: prepend_Some split: if_splits list.splits option.splits prod.splits)
qed

text \<open>The tokens. A number is checked against the grammar and carries no value: no field
  of the two structs is a number.\<close>

datatype token =
  TLBrace | TRBrace | TLBrack | TRBrack | TColon | TComma
  | TString string | TNumber | TTrue | TFalse | TNull

definition isSpace :: "char \<Rightarrow> bool" where
  "isSpace c = (c = CHR '' '' \<or> c = CHR 0x09 \<or> c = CHR 0x0D \<or> c = CHR 0x0A)"

definition isDigit :: "char \<Rightarrow> bool" where
  "isDigit c = between 0x30 c 0x39"

definition lex_exp :: "string \<Rightarrow> string option" where
  "lex_exp s =
     (case s of
        [] \<Rightarrow> Some []
      | c # r \<Rightarrow>
          if c = CHR ''e'' \<or> c = CHR ''E'' then
            (case (case r of [] \<Rightarrow> [] | g # r1 \<Rightarrow> if g = CHR ''+'' \<or> g = CHR ''-'' then r1 else r) of
               [] \<Rightarrow> None
             | d # r2 \<Rightarrow> if isDigit d then Some (dropWhile isDigit r2) else None)
          else Some s)"

definition lex_frac :: "string \<Rightarrow> string option" where
  "lex_frac s =
     (case s of
        [] \<Rightarrow> Some []
      | c # r \<Rightarrow>
          if c = CHR ''.'' then
            (case r of
               [] \<Rightarrow> None
             | d # r1 \<Rightarrow> if isDigit d then lex_exp (dropWhile isDigit r1) else None)
          else lex_exp s)"

definition lex_int :: "char \<Rightarrow> string \<Rightarrow> string option" where
  "lex_int d r =
     (if d = CHR ''0'' then lex_frac r
      else if isDigit d then lex_frac (dropWhile isDigit r)
      else None)"

definition lex_number :: "char \<Rightarrow> string \<Rightarrow> string option" where
  "lex_number c cs =
     (if c = CHR ''-'' then (case cs of [] \<Rightarrow> None | d # r \<Rightarrow> lex_int d r)
      else lex_int c cs)"

lemma lex_exp_shorter: "lex_exp s = Some r \<Longrightarrow> length r \<le> length s"
  by (auto simp: lex_exp_def split: list.splits if_splits
      intro: le_trans [OF length_dropWhile_le])

lemma lex_frac_shorter: "lex_frac s = Some r \<Longrightarrow> length r \<le> length s"
  by (auto simp: lex_frac_def split: list.splits if_splits
      dest!: lex_exp_shorter intro: le_trans [OF _ length_dropWhile_le] le_SucI)

lemma lex_int_shorter: "lex_int d s = Some r \<Longrightarrow> length r \<le> length s"
  by (auto simp: lex_int_def split: if_splits
      dest!: lex_frac_shorter intro: le_trans [OF _ length_dropWhile_le])

lemma lex_number_shorter: "lex_number c s = Some r \<Longrightarrow> length r \<le> length s"
  by (auto simp: lex_number_def split: if_splits list.splits dest!: lex_int_shorter)

definition cons_token :: "token \<Rightarrow> token list option \<Rightarrow> token list option" where
  "cons_token t r = (case r of None \<Rightarrow> None | Some ts \<Rightarrow> Some (t # ts))"

function lex :: "string \<Rightarrow> token list option" where
  "lex [] = Some []"
| "lex (c # cs) =
    (if isSpace c then lex cs
     else if c = CHR ''{'' then cons_token TLBrace (lex cs)
     else if c = CHR ''}'' then cons_token TRBrace (lex cs)
     else if c = CHR ''['' then cons_token TLBrack (lex cs)
     else if c = CHR '']'' then cons_token TRBrack (lex cs)
     else if c = CHR '':'' then cons_token TColon (lex cs)
     else if c = CHR '','' then cons_token TComma (lex cs)
     else if c = dquote then
       (case lex_string cs of
          None \<Rightarrow> None
        | Some (s, rest) \<Rightarrow> cons_token (TString s) (lex rest))
     else if c = CHR ''-'' \<or> isDigit c then
       (case lex_number c cs of
          None \<Rightarrow> None
        | Some rest \<Rightarrow> cons_token TNumber (lex rest))
     else if c = CHR ''t'' \<and> take 3 cs = ''rue'' then cons_token TTrue (lex (drop 3 cs))
     else if c = CHR ''f'' \<and> take 4 cs = ''alse'' then cons_token TFalse (lex (drop 4 cs))
     else if c = CHR ''n'' \<and> take 3 cs = ''ull'' then cons_token TNull (lex (drop 3 cs))
     else None)"
  by pat_completeness auto

termination
proof (relation "measure length", goal_cases)
  case (9 c cs x2 x y)
  then show ?case using lex_string_shorter [of cs x y] by simp
next
  case (10 c cs rest)
  then show ?case using lex_number_shorter [of c cs rest] by simp
qed simp_all

text \<open>
  The values, and the reader of a token list. The first argument bounds the depth of the
  calls; each call but the first comes after at least one token was read, so the length
  of the token list, which \<open>decode\<close> passes, is enough for every input, and an input that
  is not a value is \<^term>\<open>None\<close> whatever the bound.
\<close>

datatype json =
  JNull | JBool bool | JNumber | JString string | JArray "json list"
  | JObject "(string \<times> json) list"

fun parse_value :: "nat \<Rightarrow> token list \<Rightarrow> (json \<times> token list) option"
  and parse_elems :: "nat \<Rightarrow> token list \<Rightarrow> (json list \<times> token list) option"
  and parse_members :: "nat \<Rightarrow> token list \<Rightarrow> ((string \<times> json) list \<times> token list) option"
  where
  "parse_value 0 ts = None"
| "parse_value (Suc n) [] = None"
| "parse_value (Suc n) (t # ts) =
    (case t of
       TString s \<Rightarrow> Some (JString s, ts)
     | TNumber \<Rightarrow> Some (JNumber, ts)
     | TTrue \<Rightarrow> Some (JBool True, ts)
     | TFalse \<Rightarrow> Some (JBool False, ts)
     | TNull \<Rightarrow> Some (JNull, ts)
     | TLBrack \<Rightarrow>
         (case ts of
            TRBrack # r \<Rightarrow> Some (JArray [], r)
          | _ \<Rightarrow>
             (case parse_elems n ts of
                None \<Rightarrow> None
              | Some (es, r) \<Rightarrow> Some (JArray es, r)))
     | TLBrace \<Rightarrow>
         (case ts of
            TRBrace # r \<Rightarrow> Some (JObject [], r)
          | _ \<Rightarrow>
             (case parse_members n ts of
                None \<Rightarrow> None
              | Some (ms, r) \<Rightarrow> Some (JObject ms, r)))
     | _ \<Rightarrow> None)"
| "parse_elems 0 ts = None"
| "parse_elems (Suc n) ts =
    (case parse_value n ts of
       None \<Rightarrow> None
     | Some (v, r) \<Rightarrow>
        (case r of
           TComma # r1 \<Rightarrow>
             (case parse_elems n r1 of
                None \<Rightarrow> None
              | Some (vs, r2) \<Rightarrow> Some (v # vs, r2))
         | TRBrack # r1 \<Rightarrow> Some ([v], r1)
         | _ \<Rightarrow> None))"
| "parse_members 0 ts = None"
| "parse_members (Suc n) ts =
    (case ts of
       TString k # TColon # r \<Rightarrow>
         (case parse_value n r of
            None \<Rightarrow> None
          | Some (v, r1) \<Rightarrow>
             (case r1 of
                TComma # r2 \<Rightarrow>
                  (case parse_members n r2 of
                     None \<Rightarrow> None
                   | Some (ms, r3) \<Rightarrow> Some ((k, v) # ms, r3))
              | TRBrace # r2 \<Rightarrow> Some ([(k, v)], r2)
              | _ \<Rightarrow> None))
     | _ \<Rightarrow> None)"

definition decode :: "bytes \<Rightarrow> json option" where
  "decode data =
     (case lex data of
        None \<Rightarrow> None
      | Some ts \<Rightarrow>
         (case parse_value (length ts) ts of
            Some (v, []) \<Rightarrow> Some v
          | _ \<Rightarrow> None))"

section \<open>The data model\<close>

text \<open>\<^verbatim>\<open>type SupplyItem struct\<close> of \<^verbatim>\<open>chaincode_bluechainlatest.go\<close>, fields in the order
  of the declaration, which is the order \<^verbatim>\<open>json.Marshal\<close> writes them in.\<close>

record SupplyItem =
  SupplierID :: string
  OperatorID :: string
  Longitude :: string
  Latitude :: string
  Description :: string
  MaterialType :: string
  MaterialQty :: string
  UnitOfMeasure :: string
  Photo :: string
  SupplyItemID :: string
  OwnerID :: string

text \<open>\<^verbatim>\<open>var sItem SupplyItem\<close>: the zero value.\<close>

definition zero_SupplyItem :: SupplyItem where
  "zero_SupplyItem = \<lparr>SupplierID = [], OperatorID = [], Longitude = [], Latitude = [],
     Description = [], MaterialType = [], MaterialQty = [], UnitOfMeasure = [], Photo = [],
     SupplyItemID = [], OwnerID = []\<rparr>"

text \<open>\<^verbatim>\<open>type SupplyItemIDs_Holder struct\<close>. The slice is a list; the nil slice of the zero
  value and the empty list are the same value here. The chaincode marshals a holder in
  two places only: the zero value in \<^verbatim>\<open>Init\<close> (a nil slice, written \<^verbatim>\<open>null\<close>) and the
  result of \<^verbatim>\<open>append\<close>, which is never empty.\<close>

record SupplyItemIDs_Holder =
  SupplyItemIDs :: "string list"

definition zero_SupplyItemIDs_Holder :: SupplyItemIDs_Holder where
  "zero_SupplyItemIDs_Holder = \<lparr>SupplyItemIDs = []\<rparr>"

text \<open>\<^verbatim>\<open>json.Marshal\<close> of the two structs: the keys are the names of the \<^verbatim>\<open>json:\<close> tags.
  For these types it never returns an error.\<close>

definition Marshal_SupplyItem :: "SupplyItem \<Rightarrow> bytes" where
  \<open>Marshal_SupplyItem v =
     ''{"supplierID":'' @ encode_string (SupplierID v) @
     '',"operatorID":'' @ encode_string (OperatorID v) @
     '',"longitude":'' @ encode_string (Longitude v) @
     '',"latitude":'' @ encode_string (Latitude v) @
     '',"description":'' @ encode_string (Description v) @
     '',"materialType":'' @ encode_string (MaterialType v) @
     '',"materialQuantity":'' @ encode_string (MaterialQty v) @
     '',"unitOfMeasure":'' @ encode_string (UnitOfMeasure v) @
     '',"photo":'' @ encode_string (Photo v) @
     '',"supplyItemID":'' @ encode_string (SupplyItemID v) @
     '',"ownerID":'' @ encode_string (OwnerID v) @ ''}''\<close>

fun encode_elems :: "string list \<Rightarrow> string" where
  "encode_elems [] = []"
| "encode_elems [x] = encode_string x"
| "encode_elems (x # y # ys) = encode_string x @ '','' @ encode_elems (y # ys)"

definition Marshal_Holder :: "SupplyItemIDs_Holder \<Rightarrow> bytes" where
  \<open>Marshal_Holder h =
     ''{"supplyitemids":'' @
     (if SupplyItemIDs h = [] then ''null'' else ''['' @ encode_elems (SupplyItemIDs h) @ '']'')
     @ ''}''\<close>

subsection \<open>Decoding into the two structs\<close>

text \<open>
  A key of the input selects the field whose tag name it equals, or else the first field
  whose tag name it matches under case folding. The tag names here are ASCII letters, for
  which folding is: the same letter in either case, and for \<open>s\<close> and \<open>k\<close> also the runes
  U+017F and U+212A.
\<close>

definition lower :: "char \<Rightarrow> char" where
  "lower c = (if between 0x41 c 0x5A then char_of (of_char c + (0x20 :: nat)) else c)"

fun equalFold :: "string \<Rightarrow> string \<Rightarrow> bool" where
  "equalFold [] key = (key = [])"
| "equalFold (n # ns) [] = False"
| "equalFold (n # ns) (k # ks) =
    (if (of_char k :: nat) < 0x80 then lower k = lower n \<and> equalFold ns ks
     else if lower n = CHR ''s'' \<and> take 2 (k # ks) = [CHR 0xC5, CHR 0xBF] then
       equalFold ns (drop 1 ks)
     else if lower n = CHR ''k'' \<and> take 3 (k # ks) = [CHR 0xE2, CHR 0x84, CHR 0xAA] then
       equalFold ns (drop 2 ks)
     else False)"

definition find_field :: "string list \<Rightarrow> string \<Rightarrow> string option" where
  "find_field tags key =
     (case find (\<lambda>name. name = key) tags of
        Some name \<Rightarrow> Some name
      | None \<Rightarrow> find (\<lambda>name. equalFold name key) tags)"

text \<open>The decoder keeps the first error it meets and goes on.\<close>

definition saveError :: "string option \<Rightarrow> string \<Rightarrow> string option" where
  "saveError err msg = (case err of None \<Rightarrow> Some msg | Some e \<Rightarrow> Some e)"

text \<open>The tag names of \<^verbatim>\<open>SupplyItem\<close>, in the order of the fields, and the field each
  one names.\<close>

definition SupplyItem_tags :: "string list" where
  "SupplyItem_tags =
     [''supplierID'', ''operatorID'', ''longitude'', ''latitude'', ''description'',
      ''materialType'', ''materialQuantity'', ''unitOfMeasure'', ''photo'', ''supplyItemID'',
      ''ownerID'']"

definition set_field :: "string \<Rightarrow> string \<Rightarrow> SupplyItem \<Rightarrow> SupplyItem" where
  "set_field tag s v =
     (if tag = ''supplierID'' then v\<lparr>SupplierID := s\<rparr>
      else if tag = ''operatorID'' then v\<lparr>OperatorID := s\<rparr>
      else if tag = ''longitude'' then v\<lparr>Longitude := s\<rparr>
      else if tag = ''latitude'' then v\<lparr>Latitude := s\<rparr>
      else if tag = ''description'' then v\<lparr>Description := s\<rparr>
      else if tag = ''materialType'' then v\<lparr>MaterialType := s\<rparr>
      else if tag = ''materialQuantity'' then v\<lparr>MaterialQty := s\<rparr>
      else if tag = ''unitOfMeasure'' then v\<lparr>UnitOfMeasure := s\<rparr>
      else if tag = ''photo'' then v\<lparr>Photo := s\<rparr>
      else if tag = ''supplyItemID'' then v\<lparr>SupplyItemID := s\<rparr>
      else if tag = ''ownerID'' then v\<lparr>OwnerID := s\<rparr>
      else v)"

text \<open>The members of the input object, in order: a string sets its field, \<^verbatim>\<open>null\<close>
  leaves it, any other value is a type error; an unknown key is skipped.\<close>

fun set_members ::
  "(string \<times> json) list \<Rightarrow> SupplyItem \<times> string option \<Rightarrow> SupplyItem \<times> string option" where
  "set_members [] acc = acc"
| "set_members ((key, j) # ms) (v, err) =
     set_members ms
       (case find_field SupplyItem_tags key of
          None \<Rightarrow> (v, err)
        | Some tag \<Rightarrow>
           (case j of
              JString s \<Rightarrow> (set_field tag s v, err)
            | JNull \<Rightarrow> (v, err)
            | _ \<Rightarrow> (v, saveError err ''json: cannot unmarshal into Go value of type string'')))"

text \<open>\<^verbatim>\<open>json.Unmarshal(data, &v)\<close> for a \<^verbatim>\<open>SupplyItem\<close>: the whole input is checked first, and
  on a syntax error \<open>v\<close> is left as it was.\<close>

definition Unmarshal_SupplyItem :: "bytes \<Rightarrow> SupplyItem \<Rightarrow> SupplyItem \<times> string option" where
  "Unmarshal_SupplyItem data v =
     (case decode data of
        None \<Rightarrow> (v, Some ''invalid JSON input'')
      | Some JNull \<Rightarrow> (v, None)
      | Some (JObject ms) \<Rightarrow> set_members ms (v, None)
      | Some _ \<Rightarrow> (v, Some ''json: cannot unmarshal into Go value of type main.SupplyItem''))"

text \<open>The elements of an array decoded into a \<^verbatim>\<open>[]string\<close>: an element that is not a string
  is the empty string, and a type error unless it is \<^verbatim>\<open>null\<close>. The holder is always
  decoded into a freshly declared variable; the re-use of the slice's backing array when
  the key occurs more than once in the input is not modelled.\<close>

fun decode_strings :: "json list \<Rightarrow> string option \<Rightarrow> string list \<times> string option" where
  "decode_strings [] err = ([], err)"
| "decode_strings (j # js) err =
     (case j of
        JString s \<Rightarrow> (case decode_strings js err of (xs, err1) \<Rightarrow> (s # xs, err1))
      | JNull \<Rightarrow> (case decode_strings js err of (xs, err1) \<Rightarrow> ([] # xs, err1))
      | _ \<Rightarrow>
         (case decode_strings js
                 (saveError err ''json: cannot unmarshal into Go value of type string'') of
            (xs, err1) \<Rightarrow> ([] # xs, err1)))"

fun set_members_Holder ::
  "(string \<times> json) list \<Rightarrow> SupplyItemIDs_Holder \<times> string option
     \<Rightarrow> SupplyItemIDs_Holder \<times> string option" where
  "set_members_Holder [] acc = acc"
| "set_members_Holder ((key, j) # ms) (h, err) =
     set_members_Holder ms
       (case find_field [''supplyitemids''] key of
          None \<Rightarrow> (h, err)
        | Some tag \<Rightarrow>
           (case j of
              JArray js \<Rightarrow>
                (case decode_strings js err of (xs, err1) \<Rightarrow> (h\<lparr>SupplyItemIDs := xs\<rparr>, err1))
            | JNull \<Rightarrow> (h\<lparr>SupplyItemIDs := []\<rparr>, err)
            | _ \<Rightarrow>
               (h, saveError err ''json: cannot unmarshal into Go value of type []string'')))"

definition Unmarshal_Holder ::
  "bytes \<Rightarrow> SupplyItemIDs_Holder \<Rightarrow> SupplyItemIDs_Holder \<times> string option" where
  "Unmarshal_Holder data h =
     (case decode data of
        None \<Rightarrow> (h, Some ''invalid JSON input'')
      | Some JNull \<Rightarrow> (h, None)
      | Some (JObject ms) \<Rightarrow> set_members_Holder ms (h, None)
      | Some _ \<Rightarrow>
         (h, Some ''json: cannot unmarshal into Go value of type main.SupplyItemIDs_Holder''))"

text \<open>The bytes of a possibly nil slice.\<close>

definition bytes_of :: "bytes option \<Rightarrow> bytes" where
  "bytes_of b = (case b of None \<Rightarrow> [] | Some x \<Rightarrow> x)"

section \<open>Init\<close>

text \<open>\<^verbatim>\<open>Init\<close> is the same in both source files. \<^verbatim>\<open>json.Marshal\<close> of the holder returns no
  error, so the branch on it is never taken. The error of \<^verbatim>\<open>PutState\<close> is assigned to
  \<^verbatim>\<open>err\<close> and never looked at: the function ends with \<^verbatim>\<open>return nil, nil\<close>.\<close>

definition Init :: "stub \<Rightarrow> string \<Rightarrow> string list \<Rightarrow> stub \<times> result" where
  "Init stub function args =
     (let supplyItemIDs = zero_SupplyItemIDs_Holder;
          bytes = Marshal_Holder supplyItemIDs;
          (stub', err) = PutState stub ''supplyItemIDs'' bytes
      in (stub', Inr None))"

section \<open>The chaincode with ownership (\<^verbatim>\<open>chaincode_bluechainlatest.go\<close>)\<close>

definition retrieve_SupplyItem :: "stub \<Rightarrow> string \<Rightarrow> SupplyItem \<times> string option" where
  "retrieve_SupplyItem stub supplyItemID =
     (let sItem = zero_SupplyItem;
          (bytes, err) = GetState stub supplyItemID
      in if err \<noteq> None then
           (sItem, Some (''RETRIEVE_SupplyItem: Error retrieving supplyitem with supplyItemID = ''
                         @ supplyItemID))
         else
           let (sItem1, err1) = Unmarshal_SupplyItem (bytes_of bytes) sItem
           in if err1 \<noteq> None then
                (sItem1, Some (''RETRIEVE_SupplyItem: Corrupt supplyItem record'' @ bytes_of bytes))
              else (sItem1, None))"

text \<open>\<^verbatim>\<open>check_unique_supplyItem\<close> returns bytes together with its error. No function of
  either source file calls it: \<^verbatim>\<open>create_supplyItem\<close> makes its own test.\<close>

definition check_unique_supplyItem :: "stub \<Rightarrow> string \<Rightarrow> bytes option \<times> string option" where
  "check_unique_supplyItem stub supplyItemID =
     (let (sItem, err) = retrieve_SupplyItem stub supplyItemID
      in if err = None then (Some ''false'', Some ''SupplItem is not unique'')
         else (Some ''true'', None))"

text \<open>\<^verbatim>\<open>save_changes\<close>: the record is written at the key that is its own \<^verbatim>\<open>SupplyItemID\<close>.\<close>

definition save_changes :: "stub \<Rightarrow> SupplyItem \<Rightarrow> stub \<times> bool \<times> string option" where
  "save_changes stub sItem =
     (let bytes = Marshal_SupplyItem sItem;
          (stub1, err) = PutState stub (SupplyItemID sItem) bytes
      in if err \<noteq> None then (stub1, False, Some ''Error storing supplyitem record'')
         else (stub1, True, None))"

text \<open>
  \<^verbatim>\<open>create_supplyItem\<close>. The eleven index expressions \<^verbatim>\<open>args[0]\<close> to \<^verbatim>\<open>args[10]\<close> come
  first, before any access to the ledger; with fewer than eleven arguments the first one
  out of range panics. The test \<^verbatim>\<open>supplyItemID == ""\<close> is on the JSON fragment built from
  \<^verbatim>\<open>args[0]\<close>, not on \<^verbatim>\<open>args[0]\<close>. The error of \<^verbatim>\<open>json.Unmarshal\<close> is dropped, and so is
  the error of the first \<^verbatim>\<open>GetState\<close>.
\<close>

definition create_supplyItem :: "stub \<Rightarrow> string list \<Rightarrow> stub \<times> result" where
  \<open>create_supplyItem stub args =
     (if length args < 11 then (stub, Inl index_out_of_range)
      else
        let sItem = zero_SupplyItem;
            supplyItemID = ''"SupplyItemID":"'' @ args ! 0 @ ''", '';
            supplierID = ''"SupplierID":"'' @ args ! 1 @ ''", '';
            operatorID = ''"OperatorID":"'' @ args ! 2 @ ''", '';
            ownerID = ''"OwnerID":"'' @ args ! 3 @ ''", '';
            longitude = ''"Longitude":"'' @ args ! 4 @ ''", '';
            latitude = ''"Latitude":"'' @ args ! 5 @ ''", '';
            description = ''"Description":"'' @ args ! 6 @ ''", '';
            materialType = ''"MaterialType":"'' @ args ! 7 @ ''", '';
            materialQty = ''"MaterialQty":"'' @ args ! 8 @ ''", '';
            unitOfMeasure = ''"UnitOfMeasure":"'' @ args ! 9 @ ''", '';
            photo = ''"Photo":"'' @ args ! 10 @ ''"'';
            supplyitem_json = ''{'' @ supplyItemID @ supplierID @ operatorID @ ownerID @ longitude
              @ latitude @ description @ materialType @ materialQty @ unitOfMeasure @ photo @ ''}''
        in if supplyItemID = [] then (stub, Inl (Error ''Invalid supplyItemID provided''))
           else
             let (sItem1, ignored) = Unmarshal_SupplyItem supplyitem_json sItem;
                 (record, err) = GetState stub (SupplyItemID sItem1)
             in if record \<noteq> None then (stub, Inl (Error ''SupplyItem already exists''))
                else
                  let (stub1, saved, err1) = save_changes stub sItem1
                  in if err1 \<noteq> None then (stub1, Inl (Error ''Error saving changes''))
                     else
                       let (bytes, err2) = GetState stub1 ''supplyItemIDs''
                       in if err2 \<noteq> None then (stub1, Inl (Error ''Unable to get supplyItemIDs''))
                          else
                            let (supplyItemIDsHolder, err3) =
                                  Unmarshal_Holder (bytes_of bytes) zero_SupplyItemIDs_Holder
                            in if err3 \<noteq> None then
                                 (stub1, Inl (Error ''Corrupt SupplyItemIDs_Holder record''))
                               else
                                 let holder1 = supplyItemIDsHolder
                                       \<lparr>SupplyItemIDs :=
                                          SupplyItemIDs supplyItemIDsHolder @ [args ! 0]\<rparr>;
                                     bytes1 = Marshal_Holder holder1;
                                     (stub2, err4) = PutState stub1 ''supplyItemIDs'' bytes1
                                 in if err4 \<noteq> None then
                                      (stub2, Inl (Error ''Unable to put the state''))
                                    else (stub2, Inr None))\<close>

definition update_supplyItem :: "stub \<Rightarrow> SupplyItem \<Rightarrow> string \<Rightarrow> stub \<times> result" where
  "update_supplyItem stub sItem new_value =
     (let sItem1 = sItem\<lparr>OperatorID := new_value\<rparr>;
          sItem2 = sItem1\<lparr>OwnerID := new_value\<rparr>;
          (stub1, saved, err) = save_changes stub sItem2
      in if err \<noteq> None then (stub1, Inl (Error ''Error saving changes''))
         else (stub1, Inr None))"

text \<open>\<^verbatim>\<open>Invoke\<close>: \<^verbatim>\<open>args[0]\<close> is indexed before the record is retrieved, \<^verbatim>\<open>args[1]\<close> after
  it was retrieved without error; neither length is checked.\<close>

definition Invoke :: "stub \<Rightarrow> string \<Rightarrow> string list \<Rightarrow> stub \<times> result" where
  "Invoke stub function args =
     (if function = ''create_supplyItem'' then create_supplyItem stub args
      else if function = ''update_supplyItem'' then
        (if length args < 1 then (stub, Inl index_out_of_range)
         else
           let (sItem, err) = retrieve_SupplyItem stub (args ! 0)
           in if err \<noteq> None then (stub, Inl (Error ''Error retrieving supplyItem''))
              else if length args < 2 then (stub, Inl index_out_of_range)
              else update_supplyItem stub sItem (args ! 1))
      else (stub, Inl (Error (''Function of the name '' @ function @ '' doesn'' @ [CHR 0x27]
                              @ ''t exist.''))))"

definition get_supply_item_details :: "SupplyItem \<Rightarrow> string \<Rightarrow> result" where
  "get_supply_item_details sItem caller =
     (let bytes = Marshal_SupplyItem sItem
      in if OwnerID sItem = caller then Inr (Some bytes)
         else Inl (Error ''Permission Denied. get_supply_item_details''))"

text \<open>The loop of \<^verbatim>\<open>get_supplyItems\<close> over the identifiers of the index, with the string
  \<^verbatim>\<open>result\<close> built so far.\<close>

fun get_supplyItems_loop :: "stub \<Rightarrow> string \<Rightarrow> string list \<Rightarrow> string \<Rightarrow> error + string" where
  "get_supplyItems_loop stub caller [] result = Inr result"
| "get_supplyItems_loop stub caller (supplyItemID # ids) result =
     (let (sItem, err) = retrieve_SupplyItem stub supplyItemID
      in if err \<noteq> None then Inl (Error ''Failed to retrieve SupplyItemID'')
         else
           (case get_supply_item_details sItem caller of
              Inr temp \<Rightarrow> get_supplyItems_loop stub caller ids (result @ bytes_of temp @ '','')
            | Inl e \<Rightarrow> get_supplyItems_loop stub caller ids result))"

definition get_supplyItems :: "stub \<Rightarrow> string \<Rightarrow> result" where
  "get_supplyItems stub caller =
     (let (bytes, err) = GetState stub ''supplyItemIDs''
      in if err \<noteq> None then Inl (Error ''Unable to get supplyItemIDs'')
         else
           let (supplyItemIDsHolder, err1) =
                 Unmarshal_Holder (bytes_of bytes) zero_SupplyItemIDs_Holder
           in if err1 \<noteq> None then Inl (Error ''Corrupt SupplyItemIDs_Holder'')
              else
                (case get_supplyItems_loop stub caller (SupplyItemIDs supplyItemIDsHolder) ''['' of
                   Inl e \<Rightarrow> Inl e
                 | Inr result \<Rightarrow>
                     Inr (Some (if length result = 1 then ''[]''
                                else take (length result - 1) result @ '']''))))"

definition Query :: "stub \<Rightarrow> string \<Rightarrow> string list \<Rightarrow> result" where
  "Query stub function args =
     (if function = ''get_supplyItems'' then
        (if length args \<noteq> 1 then Inl (Error ''QUERY: Incorrect number of arguments passed'')
         else get_supplyItems stub (args ! 0))
      else Inl (Error (''Received unknown function invocation '' @ function)))"

section \<open>The chaincode without ownership (\<^verbatim>\<open>part_000\<close>)\<close>

text \<open>
  The second source file has the same \<^verbatim>\<open>Init\<close>, \<^verbatim>\<open>SupplyItemIDs_Holder\<close>,
  \<^verbatim>\<open>retrieve_SupplyItem\<close>, \<^verbatim>\<open>save_changes\<close> and \<^verbatim>\<open>Invoke\<close>; its \<^verbatim>\<open>SupplyItem\<close> has no
  \<^verbatim>\<open>OwnerID\<close>, \<^verbatim>\<open>create_supplyItem\<close> takes ten arguments, \<^verbatim>\<open>update_supplyItem\<close> sets
  \<^verbatim>\<open>OperatorID\<close> only, and \<^verbatim>\<open>Query\<close> serves \<^verbatim>\<open>read\<close>. Its definitions carry the suffix
  \<open>_000\<close>.
\<close>

record SupplyItem_000 =
  SupplierID_000 :: string
  OperatorID_000 :: string
  Longitude_000 :: string
  Latitude_000 :: string
  Description_000 :: string
  MaterialType_000 :: string
  MaterialQty_000 :: string
  UnitOfMeasure_000 :: string
  Photo_000 :: string
  SupplyItemID_000 :: string

definition zero_SupplyItem_000 :: SupplyItem_000 where
  "zero_SupplyItem_000 = \<lparr>SupplierID_000 = [], OperatorID_000 = [], Longitude_000 = [],
     Latitude_000 = [], Description_000 = [], MaterialType_000 = [], MaterialQty_000 = [],
     UnitOfMeasure_000 = [], Photo_000 = [], SupplyItemID_000 = []\<rparr>"

definition Marshal_SupplyItem_000 :: "SupplyItem_000 \<Rightarrow> bytes" where
  \<open>Marshal_SupplyItem_000 v =
     ''{"supplierID":'' @ encode_string (SupplierID_000 v) @
     '',"operatorID":'' @ encode_string (OperatorID_000 v) @
     '',"longitude":'' @ encode_string (Longitude_000 v) @
     '',"latitude":'' @ encode_string (Latitude_000 v) @
     '',"description":'' @ encode_string (Description_000 v) @
     '',"materialType":'' @ encode_string (MaterialType_000 v) @
     '',"materialQuantity":'' @ encode_string (MaterialQty_000 v) @
     '',"unitOfMeasure":'' @ encode_string (UnitOfMeasure_000 v) @
     '',"photo":'' @ encode_string (Photo_000 v) @
     '',"supplyItemID":'' @ encode_string (SupplyItemID_000 v) @ ''}''\<close>

definition SupplyItem_000_tags :: "string list" where
  "SupplyItem_000_tags =
     [''supplierID'', ''operatorID'', ''longitude'', ''latitude'', ''description'',
      ''materialType'', ''materialQuantity'', ''unitOfMeasure'', ''photo'', ''supplyItemID'']"

definition set_field_000 :: "string \<Rightarrow> string \<Rightarrow> SupplyItem_000 \<Rightarrow> SupplyItem_000" where
  "set_field_000 tag s v =
     (if tag = ''supplierID'' then v\<lparr>SupplierID_000 := s\<rparr>
      else if tag = ''operatorID'' then v\<lparr>OperatorID_000 := s\<rparr>
      else if tag = ''longitude'' then v\<lparr>Longitude_000 := s\<rparr>
      else if tag = ''latitude'' then v\<lparr>Latitude_000 := s\<rparr>
      else if tag = ''description'' then v\<lparr>Description_000 := s\<rparr>
      else if tag = ''materialType'' then v\<lparr>MaterialType_000 := s\<rparr>
      else if tag = ''materialQuantity'' then v\<lparr>MaterialQty_000 := s\<rparr>
      else if tag = ''unitOfMeasure'' then v\<lparr>UnitOfMeasure_000 := s\<rparr>
      else if tag = ''photo'' then v\<lparr>Photo_000 := s\<rparr>
      else if tag = ''supplyItemID'' then v\<lparr>SupplyItemID_000 := s\<rparr>
      else v)"

fun set_members_000 ::
  "(string \<times> json) list \<Rightarrow> SupplyItem_000 \<times> string option
     \<Rightarrow> SupplyItem_000 \<times> string option" where
  "set_members_000 [] acc = acc"
| "set_members_000 ((key, j) # ms) (v, err) =
     set_members_000 ms
       (case find_field SupplyItem_000_tags key of
          None \<Rightarrow> (v, err)
        | Some tag \<Rightarrow>
           (case j of
              JString s \<Rightarrow> (set_field_000 tag s v, err)
            | JNull \<Rightarrow> (v, err)
            | _ \<Rightarrow> (v, saveError err ''json: cannot unmarshal into Go value of type string'')))"

definition Unmarshal_SupplyItem_000 ::
  "bytes \<Rightarrow> SupplyItem_000 \<Rightarrow> SupplyItem_000 \<times> string option" where
  "Unmarshal_SupplyItem_000 data v =
     (case decode data of
        None \<Rightarrow> (v, Some ''invalid JSON input'')
      | Some JNull \<Rightarrow> (v, None)
      | Some (JObject ms) \<Rightarrow> set_members_000 ms (v, None)
      | Some _ \<Rightarrow> (v, Some ''json: cannot unmarshal into Go value of type main.SupplyItem''))"

definition retrieve_SupplyItem_000 :: "stub \<Rightarrow> string \<Rightarrow> SupplyItem_000 \<times> string option" where
  "retrieve_SupplyItem_000 stub supplyItemID =
     (let sItem = zero_SupplyItem_000;
          (bytes, err) = GetState stub supplyItemID
      in if err \<noteq> None then
           (sItem, Some (''RETRIEVE_SupplyItem: Error retrieving supplyitem with supplyItemID = ''
                         @ supplyItemID))
         else
           let (sItem1, err1) = Unmarshal_SupplyItem_000 (bytes_of bytes) sItem
           in if err1 \<noteq> None then
                (sItem1, Some (''RETRIEVE_SupplyItem: Corrupt supplyItem record'' @ bytes_of bytes))
              else (sItem1, None))"

definition save_changes_000 :: "stub \<Rightarrow> SupplyItem_000 \<Rightarrow> stub \<times> bool \<times> string option" where
  "save_changes_000 stub sItem =
     (let bytes = Marshal_SupplyItem_000 sItem;
          (stub1, err) = PutState stub (SupplyItemID_000 sItem) bytes
      in if err \<noteq> None then (stub1, False, Some ''Error storing supplyitem record'')
         else (stub1, True, None))"

definition create_supplyItem_000 :: "stub \<Rightarrow> string list \<Rightarrow> stub \<times> result" where
  \<open>create_supplyItem_000 stub args =
     (if length args < 10 then (stub, Inl index_out_of_range)
      else
        let sItem = zero_SupplyItem_000;
            supplyItemID = ''"SupplyItemID":"'' @ args ! 0 @ ''", '';
            supplierID = ''"SupplierID":"'' @ args ! 1 @ ''", '';
            operatorID = ''"OperatorID":"'' @ args ! 2 @ ''", '';
            longitude = ''"Longitude":"'' @ args ! 3 @ ''", '';
            latitude = ''"Latitude":"'' @ args ! 4 @ ''", '';
            description = ''"Description":"'' @ args ! 5 @ ''", '';
            materialType = ''"MaterialType":"'' @ args ! 6 @ ''", '';
            materialQty = ''"MaterialQty":"'' @ args ! 7 @ ''", '';
            unitOfMeasure = ''"UnitOfMeasure":"'' @ args ! 8 @ ''", '';
            photo = ''"Photo":"'' @ args ! 9 @ ''"'';
            supplyitem_json = ''{'' @ supplyItemID @ supplierID @ operatorID @ longitude
              @ latitude @ description @ materialType @ materialQty @ unitOfMeasure @ photo @ ''}''
        in if supplyItemID = [] then (stub, Inl (Error ''Invalid supplyItemID provided''))
           else
             let (sItem1, ignored) = Unmarshal_SupplyItem_000 supplyitem_json sItem;
                 (record, err) = GetState stub (SupplyItemID_000 sItem1)
             in if record \<noteq> None then (stub, Inl (Error ''SupplyItem already exists''))
                else
                  let (stub1, saved, err1) = save_changes_000 stub sItem1
                  in if err1 \<noteq> None then (stub1, Inl (Error ''Error saving changes''))
                     else
                       let (bytes, err2) = GetState stub1 ''supplyItemIDs''
                       in if err2 \<noteq> None then (stub1, Inl (Error ''Unable to get supplyItemIDs''))
                          else
                            let (supplyItemIDsHolder, err3) =
                                  Unmarshal_Holder (bytes_of bytes) zero_SupplyItemIDs_Holder
                            in if err3 \<noteq> None then
                                 (stub1, Inl (Error ''Corrupt SupplyItemIDs_Holder record''))
                               else
                                 let holder1 = supplyItemIDsHolder
                                       \<lparr>SupplyItemIDs :=
                                          SupplyItemIDs supplyItemIDsHolder @ [args ! 0]\<rparr>;
                                     bytes1 = Marshal_Holder holder1;
                                     (stub2, err4) = PutState stub1 ''supplyItemIDs'' bytes1
                                 in if err4 \<noteq> None then
                                      (stub2, Inl (Error ''Unable to put the state''))
                                    else (stub2, Inr None))\<close>

definition update_supplyItem_000 :: "stub \<Rightarrow> SupplyItem_000 \<Rightarrow> string \<Rightarrow> stub \<times> result" where
  "update_supplyItem_000 stub sItem new_value =
     (let sItem1 = sItem\<lparr>OperatorID_000 := new_value\<rparr>;
          (stub1, saved, err) = save_changes_000 stub sItem1
      in if err \<noteq> None then (stub1, Inl (Error ''Error saving changes''))
         else (stub1, Inr None))"

definition Invoke_000 :: "stub \<Rightarrow> string \<Rightarrow> string list \<Rightarrow> stub \<times> result" where
  "Invoke_000 stub function args =
     (if function = ''create_supplyItem'' then create_supplyItem_000 stub args
      else if function = ''update_supplyItem'' then
        (if length args < 1 then (stub, Inl index_out_of_range)
         else
           let (sItem, err) = retrieve_SupplyItem_000 stub (args ! 0)
           in if err \<noteq> None then (stub, Inl (Error ''Error retrieving supplyItem''))
              else if length args < 2 then (stub, Inl index_out_of_range)
              else update_supplyItem_000 stub sItem (args ! 1))
      else (stub, Inl (Error (''Function of the name '' @ function @ '' doesn'' @ [CHR 0x27]
                              @ ''t exist.''))))"

definition read :: "stub \<Rightarrow> string list \<Rightarrow> result" where
  \<open>read stub args =
     (if length args \<noteq> 1 then
        Inl (Error ''Incorrect number of arguments. Expecting name of the key to query'')
      else
        let key = args ! 0;
            (valAsbytes, err) = GetState stub key
        in if err \<noteq> None then
             Inl (Error (''{"Error":"Failed to get state for '' @ key @ ''"}''))
           else Inr valAsbytes)\<close>

definition Query_000 :: "stub \<Rightarrow> string \<Rightarrow> string list \<Rightarrow> result" where
  "Query_000 stub function args =
     (if function = ''read'' then read stub args
      else Inl (Error (''Received unknown function query: '' @ function)))"

section \<open>Predicates and functions of the statements\<close>

text \<open>
  A \<open>plain\<close> string has only bytes from 0x20 to 0x7F other than the double quote and the
  backslash: placed between double quotes it is a JSON string literal for itself. An
  \<open>ascii\<close> string has only bytes below 0x80: \<^verbatim>\<open>json.Marshal\<close> followed by
  \<^verbatim>\<open>json.Unmarshal\<close> gives it back.
\<close>

definition plain_char :: "char \<Rightarrow> bool" where
  "plain_char c = (0x20 \<le> (of_char c :: nat) \<and> (of_char c :: nat) < 0x80 \<and> c \<noteq> dquote \<and> c \<noteq> backslash)"

definition plain :: "string \<Rightarrow> bool" where
  "plain s = list_all plain_char s"

definition ascii :: "string \<Rightarrow> bool" where
  "ascii s = list_all (\<lambda>c. (of_char c :: nat) < 0x80) s"

definition ascii_item :: "SupplyItem \<Rightarrow> bool" where
  "ascii_item v = (ascii (SupplierID v) \<and> ascii (OperatorID v) \<and> ascii (Longitude v)
     \<and> ascii (Latitude v) \<and> ascii (Description v) \<and> ascii (MaterialType v)
     \<and> ascii (MaterialQty v) \<and> ascii (UnitOfMeasure v) \<and> ascii (Photo v)
     \<and> ascii (SupplyItemID v) \<and> ascii (OwnerID v))"

definition ascii_item_000 :: "SupplyItem_000 \<Rightarrow> bool" where
  "ascii_item_000 v = (ascii (SupplierID_000 v) \<and> ascii (OperatorID_000 v) \<and> ascii (Longitude_000 v)
     \<and> ascii (Latitude_000 v) \<and> ascii (Description_000 v) \<and> ascii (MaterialType_000 v)
     \<and> ascii (MaterialQty_000 v) \<and> ascii (UnitOfMeasure_000 v) \<and> ascii (Photo_000 v)
     \<and> ascii (SupplyItemID_000 v))"

text \<open>The arguments of a create are plain when there are at least eleven of them (ten in
  the variant without ownership) and those the function reads are plain strings.\<close>

definition plain_args :: "string list \<Rightarrow> bool" where
  "plain_args args = (11 \<le> length args \<and> list_all plain (take 11 args))"

definition plain_args_000 :: "string list \<Rightarrow> bool" where
  "plain_args_000 args = (10 \<le> length args \<and> list_all plain (take 10 args))"

text \<open>The record that \<^verbatim>\<open>create_supplyItem\<close> builds from plain arguments: every field is
  the argument of its position, apart from \<^verbatim>\<open>MaterialQty\<close>, which stays empty. The JSON text
  has the key \<^verbatim>\<open>MaterialQty\<close>, and the tag of the field is \<^verbatim>\<open>materialQuantity\<close>.\<close>

definition created_item :: "string list \<Rightarrow> SupplyItem" where
  "created_item args = \<lparr>SupplierID = args ! 1, OperatorID = args ! 2, Longitude = args ! 4,
     Latitude = args ! 5, Description = args ! 6, MaterialType = args ! 7, MaterialQty = [],
     UnitOfMeasure = args ! 9, Photo = args ! 10, SupplyItemID = args ! 0, OwnerID = args ! 3\<rparr>"

definition created_item_000 :: "string list \<Rightarrow> SupplyItem_000" where
  "created_item_000 args = \<lparr>SupplierID_000 = args ! 1, OperatorID_000 = args ! 2,
     Longitude_000 = args ! 3, Latitude_000 = args ! 4, Description_000 = args ! 5,
     MaterialType_000 = args ! 6, MaterialQty_000 = [], UnitOfMeasure_000 = args ! 8,
     Photo_000 = args ! 9, SupplyItemID_000 = args ! 0\<rparr>"

text \<open>The identifiers held in the index record, the ledger keys other than the key of the
  index, and the ledgers whose index record is the encoding of a list of ascii identifiers
  that are exactly those keys.\<close>

definition index_ids :: "stub \<Rightarrow> string list" where
  "index_ids stub =
     SupplyItemIDs (fst (Unmarshal_Holder (bytes_of (State stub ''supplyItemIDs''))
                           zero_SupplyItemIDs_Holder))"





text \<open>The listing as the specification words it: the records the index names, those the
  caller owns, encoded, in the order of the index, as a JSON array.\<close>

fun json_array :: "bytes list \<Rightarrow> bytes" where
  "json_array [] = ''[]''"
| "json_array (x # xs) = ''['' @ x @ concat (map (\<lambda>y. CHR '','' # y) xs) @ '']''"

definition indexed_records :: "stub \<Rightarrow> SupplyItem list" where
  "indexed_records stub = map (\<lambda>supplyItemID. fst (retrieve_SupplyItem stub supplyItemID)) (index_ids stub)"

definition listVisible :: "stub \<Rightarrow> string \<Rightarrow> bytes" where
  "listVisible stub caller =
     json_array (map Marshal_SupplyItem (filter (\<lambda>v. OwnerID v = caller) (indexed_records stub)))"

text \<open>The tokens of the elements of an array of strings after the first.\<close>

fun more_tokens :: "string list \<Rightarrow> token list" where
  "more_tokens [] = []"
| "more_tokens (y # ys) = TComma # TString y # more_tokens ys"

section \<open>Ledgers used as concrete inputs\<close>

text \<open>A ledger with no entry whose primitives never fail, and one whose put always
  reports a failure.\<close>

definition empty_ledger :: stub where
  "empty_ledger = \<lparr>State = Map.empty, get_fails = (\<lambda>k. False), put_fails = (\<lambda>k v. False)\<rparr>"

definition readonly_ledger :: stub where
  "readonly_ledger = \<lparr>State = Map.empty, get_fails = (\<lambda>k. False), put_fails = (\<lambda>k v. True)\<rparr>"

text \<open>The scenario of the specification: \<^verbatim>\<open>Init\<close> on the empty ledger, then the create of
  \<open>S1\<close> for the owner \<open>own1\<close>; the record and the bytes the ledger then holds at \<open>S1\<close>. The
  variant without ownership takes the same arguments without the owner.\<close>

definition scenario_args :: "string list" where
  "scenario_args = [''S1'', ''sup1'', ''op1'', ''own1'', ''10.0'', ''20.0'', ''desc'', ''metal'',
     ''5'', ''kg'', ''photo.jpg'']"

definition initialized :: stub where
  "initialized = fst (Init empty_ledger ''init'' [])"

definition after_S1 :: stub where
  "after_S1 = fst (create_supplyItem initialized scenario_args)"

definition S1_item :: SupplyItem where
  "S1_item = \<lparr>SupplierID = ''sup1'', OperatorID = ''op1'', Longitude = ''10.0'',
     Latitude = ''20.0'', Description = ''desc'', MaterialType = ''metal'', MaterialQty = [],
     UnitOfMeasure = ''kg'', Photo = ''photo.jpg'', SupplyItemID = ''S1'', OwnerID = ''own1''\<rparr>"

definition S1_bytes :: bytes where
  \<open>S1_bytes = ''{"supplierID":"sup1","operatorID":"op1","longitude":"10.0","latitude":"20.0","description":"desc","materialType":"metal","materialQuantity":"","unitOfMeasure":"kg","photo":"photo.jpg","supplyItemID":"S1","ownerID":"own1"}''\<close>

definition scenario_args_000 :: "string list" where
  "scenario_args_000 = [''S1'', ''sup1'', ''op1'', ''10.0'', ''20.0'', ''desc'', ''metal'',
     ''5'', ''kg'', ''photo.jpg'']"

definition after_S1_000 :: stub where
  "after_S1_000 = fst (create_supplyItem_000 initialized scenario_args_000)"

definition S1_item_000 :: SupplyItem_000 where
  "S1_item_000 = \<lparr>SupplierID_000 = ''sup1'', OperatorID_000 = ''op1'', Longitude_000 = ''10.0'',
     Latitude_000 = ''20.0'', Description_000 = ''desc'', MaterialType_000 = ''metal'',
     MaterialQty_000 = [], UnitOfMeasure_000 = ''kg'', Photo_000 = ''photo.jpg'',
     SupplyItemID_000 = ''S1''\<rparr>"

definition S1_bytes_000 :: bytes where
  \<open>S1_bytes_000 = ''{"supplierID":"sup1","operatorID":"op1","longitude":"10.0","latitude":"20.0","description":"desc","materialType":"metal","materialQuantity":"","unitOfMeasure":"kg","photo":"photo.jpg","supplyItemID":"S1"}''\<close>






definition empty_id_args :: "string list" where
  "empty_id_args = ['''', ''sup1'', ''op1'', ''own1'', ''10.0'', ''20.0'', ''desc'', ''metal'',
     ''5'', ''kg'', ''photo.jpg'']"

definition empty_id_args_000 :: "string list" where
  "empty_id_args_000 = ['''', ''sup1'', ''op1'', ''10.0'', ''20.0'', ''desc'', ''metal'',
     ''5'', ''kg'', ''photo.jpg'']"

definition after_empty_id :: stub where
  "after_empty_id = fst (create_supplyItem initialized empty_id_args)"

definition after_empty_id_000 :: stub where
  "after_empty_id_000 = fst (create_supplyItem_000 initialized empty_id_args_000)"

definition after_second_Init :: stub where
  "after_second_Init = fst (Init after_S1 ''init'' [])"

section \<open>Strings that the codec carries unchanged\<close>

lemma lex_string_plain:
  "plain a \<Longrightarrow> lex_string (a @ CHR 0x22 # rest) = Some (a, rest)"
  by (induction a) (auto simp: plain_def plain_char_def dquote_def backslash_def prepend_def)

lemma lex_create_json:
  assumes "plain a0" "plain a1" "plain a2" "plain a3" "plain a4" "plain a5" "plain a6" "plain a7" "plain a8" "plain a9" "plain a10"
  shows \<open>lex (''{'' @ (''"SupplyItemID":"'' @ a0 @ ''", '')
     @ (''"SupplierID":"'' @ a1 @ ''", '')
     @ (''"OperatorID":"'' @ a2 @ ''", '')
     @ (''"OwnerID":"'' @ a3 @ ''", '')
     @ (''"Longitude":"'' @ a4 @ ''", '')
     @ (''"Latitude":"'' @ a5 @ ''", '')
     @ (''"Description":"'' @ a6 @ ''", '')
     @ (''"MaterialType":"'' @ a7 @ ''", '')
     @ (''"MaterialQty":"'' @ a8 @ ''", '')
     @ (''"UnitOfMeasure":"'' @ a9 @ ''", '')
     @ (''"Photo":"'' @ a10 @ ''"'') @ ''}'') =
    Some [TLBrace, TString ''SupplyItemID'', TColon, TString a0, TComma,
      TString ''SupplierID'', TColon, TString a1, TComma,
      TString ''OperatorID'', TColon, TString a2, TComma,
      TString ''OwnerID'', TColon, TString a3, TComma,
      TString ''Longitude'', TColon, TString a4, TComma,
      TString ''Latitude'', TColon, TString a5, TComma,
      TString ''Description'', TColon, TString a6, TComma,
      TString ''MaterialType'', TColon, TString a7, TComma,
      TString ''MaterialQty'', TColon, TString a8, TComma,
      TString ''UnitOfMeasure'', TColon, TString a9, TComma,
      TString ''Photo'', TColon, TString a10, TRBrace]\<close>
  using assms
  by (simp add: lex_string_plain isSpace_def isDigit_def between_def dquote_def backslash_def
      cons_token_def prepend_def)

lemma find_field_keys:
  "find_field SupplyItem_tags ''SupplyItemID'' = Some ''supplyItemID''"
  "find_field SupplyItem_tags ''SupplierID'' = Some ''supplierID''"
  "find_field SupplyItem_tags ''OperatorID'' = Some ''operatorID''"
  "find_field SupplyItem_tags ''OwnerID'' = Some ''ownerID''"
  "find_field SupplyItem_tags ''Longitude'' = Some ''longitude''"
  "find_field SupplyItem_tags ''Latitude'' = Some ''latitude''"
  "find_field SupplyItem_tags ''Description'' = Some ''description''"
  "find_field SupplyItem_tags ''MaterialType'' = Some ''materialType''"
  "find_field SupplyItem_tags ''MaterialQty'' = None"
  "find_field SupplyItem_tags ''UnitOfMeasure'' = Some ''unitOfMeasure''"
  "find_field SupplyItem_tags ''Photo'' = Some ''photo''"
  by code_simp+

lemma Unmarshal_create_json:
  assumes "plain a0" "plain a1" "plain a2" "plain a3" "plain a4" "plain a5" "plain a6" "plain a7" "plain a8" "plain a9" "plain a10"
  shows \<open>Unmarshal_SupplyItem (''{'' @ (''"SupplyItemID":"'' @ a0 @ ''", '')
     @ (''"SupplierID":"'' @ a1 @ ''", '')
     @ (''"OperatorID":"'' @ a2 @ ''", '')
     @ (''"OwnerID":"'' @ a3 @ ''", '')
     @ (''"Longitude":"'' @ a4 @ ''", '')
     @ (''"Latitude":"'' @ a5 @ ''", '')
     @ (''"Description":"'' @ a6 @ ''", '')
     @ (''"MaterialType":"'' @ a7 @ ''", '')
     @ (''"MaterialQty":"'' @ a8 @ ''", '')
     @ (''"UnitOfMeasure":"'' @ a9 @ ''", '')
     @ (''"Photo":"'' @ a10 @ ''"'') @ ''}'') zero_SupplyItem =
    (\<lparr>SupplierID = a1, OperatorID = a2, Longitude = a4,
     Latitude = a5, Description = a6, MaterialType = a7, MaterialQty = [],
     UnitOfMeasure = a9, Photo = a10, SupplyItemID = a0, OwnerID = a3\<rparr>, None)\<close>
  unfolding Unmarshal_SupplyItem_def decode_def lex_create_json [OF assms]
  by (simp add: find_field_keys set_field_def zero_SupplyItem_def)

lemma hexval_hex: "k < 16 \<Longrightarrow> hexval (hex ! k) = Some k"
proof -
  have "\<forall>k \<in> set [0..<16]. hexval (hex ! k) = Some k"
    by code_simp
  then show "k < 16 \<Longrightarrow> hexval (hex ! k) = Some k"
    by simp
qed

lemma hexval_0: "hexval (CHR ''0'') = Some 0"
  by code_simp

lemma getu4_escape:
  assumes "n < 0x100"
  shows "getu4 (CHR 0x5C # CHR ''u'' # CHR ''0'' # CHR ''0'' # hex ! (n div 16) # hex ! (n mod 16) # rest) = Some n"
proof -
  have "n div 16 < 16" "n mod 16 < 16" using assms by auto
  then show ?thesis
    by (simp add: getu4_def backslash_def hexval_hex hexval_0)
qed

lemma lex_string_encode_char:
  assumes "(of_char c :: nat) < 0x80"
  shows "lex_string (encode_chars [c] @ rest) = prepend [c] (lex_string rest)"
proof -
  let ?n = "of_char c :: nat"
  consider (safe) "htmlSafe c" | (quote) "c = CHR 0x22 \<or> c = CHR 0x5C"
    | (ctl) "c = CHR 0x0A \<or> c = CHR 0x0D \<or> c = CHR 0x09"
    | (other) "\<not> htmlSafe c" "c \<noteq> CHR 0x22" "c \<noteq> CHR 0x5C" "c \<noteq> CHR 0x0A" "c \<noteq> CHR 0x0D" "c \<noteq> CHR 0x09"
    by blast
  then show ?thesis
  proof cases
    case safe
    then show ?thesis
      using assms by (simp add: htmlSafe_def dquote_def backslash_def)
  next
    case quote
    then show ?thesis
      by (auto simp: htmlSafe_def dquote_def backslash_def unescape_def)
  next
    case ctl
    then show ?thesis
      by (auto simp: htmlSafe_def dquote_def backslash_def unescape_def)
  next
    case other
    have "EncodeRune ?n = [c]"
      using assms by (simp add: EncodeRune_def)
    moreover have "\<not> (0xD800 \<le> ?n \<and> ?n < 0xE000)"
      using assms by simp
    ultimately show ?thesis
      using other assms getu4_escape [of ?n rest]
      by (simp add: dquote_def backslash_def)
  qed
qed

lemma lex_string_encode_chars:
  "ascii s \<Longrightarrow> lex_string (encode_chars s @ CHR 0x22 # rest) = Some (s, rest)"
proof (induction s)
  case Nil
  then show ?case by (simp add: dquote_def)
next
  case (Cons c s)
  then have c: "(of_char c :: nat) < 0x80" and s: "ascii s"
    by (simp_all add: ascii_def)
  have "encode_chars (c # s) = encode_chars [c] @ encode_chars s"
    using c by simp
  then show ?case
    using lex_string_encode_char [OF c, of "encode_chars s @ CHR 0x22 # rest"] Cons.IH [OF s]
    by (simp add: prepend_def)
qed

lemma find_field_tags:
  "find_field SupplyItem_tags ''supplierID'' = Some ''supplierID''"
  "find_field SupplyItem_tags ''operatorID'' = Some ''operatorID''"
  "find_field SupplyItem_tags ''longitude'' = Some ''longitude''"
  "find_field SupplyItem_tags ''latitude'' = Some ''latitude''"
  "find_field SupplyItem_tags ''description'' = Some ''description''"
  "find_field SupplyItem_tags ''materialType'' = Some ''materialType''"
  "find_field SupplyItem_tags ''materialQuantity'' = Some ''materialQuantity''"
  "find_field SupplyItem_tags ''unitOfMeasure'' = Some ''unitOfMeasure''"
  "find_field SupplyItem_tags ''photo'' = Some ''photo''"
  "find_field SupplyItem_tags ''supplyItemID'' = Some ''supplyItemID''"
  "find_field SupplyItem_tags ''ownerID'' = Some ''ownerID''"
  by code_simp+

lemma lex_Marshal_SupplyItem:
  assumes "ascii_item v"
  shows "lex (Marshal_SupplyItem v) =
    Some [TLBrace, TString ''supplierID'', TColon, TString (SupplierID v), TComma,
      TString ''operatorID'', TColon, TString (OperatorID v), TComma,
      TString ''longitude'', TColon, TString (Longitude v), TComma,
      TString ''latitude'', TColon, TString (Latitude v), TComma,
      TString ''description'', TColon, TString (Description v), TComma,
      TString ''materialType'', TColon, TString (MaterialType v), TComma,
      TString ''materialQuantity'', TColon, TString (MaterialQty v), TComma,
      TString ''unitOfMeasure'', TColon, TString (UnitOfMeasure v), TComma,
      TString ''photo'', TColon, TString (Photo v), TComma,
      TString ''supplyItemID'', TColon, TString (SupplyItemID v), TComma,
      TString ''ownerID'', TColon, TString (OwnerID v), TRBrace]"
  using assms
  by (simp add: Marshal_SupplyItem_def encode_string_def ascii_item_def lex_string_encode_chars
      isSpace_def isDigit_def between_def dquote_def backslash_def cons_token_def prepend_def)

lemma Unmarshal_Marshal_SupplyItem:
  assumes "ascii_item v"
  shows "Unmarshal_SupplyItem (Marshal_SupplyItem v) w = (v, None)"
  unfolding Unmarshal_SupplyItem_def decode_def lex_Marshal_SupplyItem [OF assms]
  by (simp add: find_field_tags set_field_def)

lemma lex_encode_string:
  "ascii s \<Longrightarrow> lex (encode_string s @ rest) = cons_token (TString s) (lex rest)"
  by (simp add: encode_string_def lex_string_encode_chars isSpace_def dquote_def
      isDigit_def between_def)

lemma lex_encode_elems:
  "list_all ascii (x # xs) \<Longrightarrow> lex rest = Some ts \<Longrightarrow>
   lex (encode_elems (x # xs) @ rest) = Some (TString x # more_tokens xs @ ts)"
proof (induction xs arbitrary: x)
  case Nil
  then show ?case by (simp add: lex_encode_string cons_token_def)
next
  case (Cons y ys)
  have "lex (encode_elems (y # ys) @ rest) = Some (TString y # more_tokens ys @ ts)"
    using Cons.IH [of y] Cons.prems by simp
  then show ?case
    using Cons.prems
    by (simp add: lex_encode_string cons_token_def isSpace_def isDigit_def between_def dquote_def)
qed

lemma parse_elems_strings:
  "length xs < n \<Longrightarrow>
   parse_elems (Suc n) (TString x # more_tokens xs @ TRBrack # rest) = Some (JString x # map JString xs, rest)"
proof (induction xs arbitrary: x n)
  case Nil
  then obtain m where "n = Suc m" by (cases n) auto
  then show ?case by simp
next
  case (Cons y ys)
  then obtain m where n: "n = Suc m" and m: "length ys < m" by (cases n) auto
  show ?case
    using Cons.IH [OF m, of y] n by simp
qed

lemma length_more_tokens: "length (more_tokens xs) = 2 * length xs"
  by (induction xs) auto

lemma decode_strings_strings: "decode_strings (map JString xs) err = (xs, err)"
  by (induction xs) auto

lemma find_field_supplyitemids:
  "find_field [''supplyitemids''] ''supplyitemids'' = Some ''supplyitemids''"
  by code_simp

lemma Unmarshal_Marshal_Holder:
  assumes "list_all ascii (SupplyItemIDs h)"
  shows "Unmarshal_Holder (Marshal_Holder h) zero_SupplyItemIDs_Holder = (h, None)"
proof (cases "SupplyItemIDs h")
  case Nil
  have "Unmarshal_Holder ''{\"supplyitemids\":null}'' zero_SupplyItemIDs_Holder = (zero_SupplyItemIDs_Holder, None)"
    by code_simp
  then show ?thesis
    using Nil by (simp add: Marshal_Holder_def zero_SupplyItemIDs_Holder_def)
next
  case (Cons x xs)
  have l: "lex (Marshal_Holder h) =
    Some ([TLBrace, TString ''supplyitemids'', TColon, TLBrack] @ TString x # more_tokens xs @ [TRBrack, TRBrace])"
    using assms Cons lex_encode_elems [of x xs "'']}''" "[TRBrack, TRBrace]"]
    by (simp add: Marshal_Holder_def isSpace_def isDigit_def between_def dquote_def backslash_def
        cons_token_def prepend_def)
  show ?thesis
    unfolding Unmarshal_Holder_def decode_def l
    using Cons
    by (simp add: parse_elems_strings length_more_tokens find_field_supplyitemids
        decode_strings_strings zero_SupplyItemIDs_Holder_def del: parse_elems.simps)
qed

section \<open>create_supplyItem on plain arguments\<close>

lemma plain_args_nth: "plain_args args \<Longrightarrow> i < 11 \<Longrightarrow> plain (args ! i)"
  by (auto simp: plain_args_def list_all_length)


lemma create_supplyItem_plain:
  assumes "plain_args args"
  shows "create_supplyItem stub args =
     (let sItem1 = created_item args;
          (record, err) = GetState stub (SupplyItemID sItem1)
      in if record \<noteq> None then (stub, Inl (Error ''SupplyItem already exists''))
         else
           let (stub1, saved, err1) = save_changes stub sItem1
           in if err1 \<noteq> None then (stub1, Inl (Error ''Error saving changes''))
              else
                let (bytes, err2) = GetState stub1 ''supplyItemIDs''
                in if err2 \<noteq> None then (stub1, Inl (Error ''Unable to get supplyItemIDs''))
                   else
                     let (supplyItemIDsHolder, err3) =
                           Unmarshal_Holder (bytes_of bytes) zero_SupplyItemIDs_Holder
                     in if err3 \<noteq> None then
                          (stub1, Inl (Error ''Corrupt SupplyItemIDs_Holder record''))
                        else
                          let holder1 = supplyItemIDsHolder
                                \<lparr>SupplyItemIDs :=
                                   SupplyItemIDs supplyItemIDsHolder @ [args ! 0]\<rparr>;
                              bytes1 = Marshal_Holder holder1;
                              (stub2, err4) = PutState stub1 ''supplyItemIDs'' bytes1
                          in if err4 \<noteq> None then
                               (stub2, Inl (Error ''Unable to put the state''))
                             else (stub2, Inr None))"
proof -
  have len: "\<not> length args < 11"
    using assms by (simp add: plain_args_def)
  have dec: "Unmarshal_SupplyItem (''{'' @ (''\"SupplyItemID\":\"'' @ args ! 0 @ ''\", '')
     @ (''\"SupplierID\":\"'' @ args ! 1 @ ''\", '')
     @ (''\"OperatorID\":\"'' @ args ! 2 @ ''\", '')
     @ (''\"OwnerID\":\"'' @ args ! 3 @ ''\", '')
     @ (''\"Longitude\":\"'' @ args ! 4 @ ''\", '')
     @ (''\"Latitude\":\"'' @ args ! 5 @ ''\", '')
     @ (''\"Description\":\"'' @ args ! 6 @ ''\", '')
     @ (''\"MaterialType\":\"'' @ args ! 7 @ ''\", '')
     @ (''\"MaterialQty\":\"'' @ args ! 8 @ ''\", '')
     @ (''\"UnitOfMeasure\":\"'' @ args ! 9 @ ''\", '')
     @ (''\"Photo\":\"'' @ args ! 10 @ ''\"'') @ ''}'') zero_SupplyItem = (created_item args, None)"
    unfolding created_item_def
    by (rule Unmarshal_create_json) (simp_all add: plain_args_nth [OF assms])
  show ?thesis
    unfolding create_supplyItem_def
    using len
    by (simp only: if_False Let_def dec) simp
qed







section \<open>get_supplyItems, update_supplyItem and Init on any ledger\<close>

lemma loop_result:
  "get_supplyItems_loop stub caller ids result =
     (if list_ex (\<lambda>supplyItemID. snd (retrieve_SupplyItem stub supplyItemID) \<noteq> None) ids
      then Inl (Error ''Failed to retrieve SupplyItemID'')
      else Inr (result @ concat (map (\<lambda>x. x @ '','')
             (map Marshal_SupplyItem (filter (\<lambda>v. OwnerID v = caller)
                (map (\<lambda>supplyItemID. fst (retrieve_SupplyItem stub supplyItemID)) ids))))))"
proof (induction ids arbitrary: result)
  case Nil
  then show ?case by simp
next
  case (Cons a ids)
  show ?case
    by (cases "retrieve_SupplyItem stub a")
       (simp add: Cons.IH get_supply_item_details_def bytes_of_def)
qed

lemma concat_commas:
  "concat (map (\<lambda>x. x @ '','') (x # ys)) = (x @ concat (map (\<lambda>y. CHR '','' # y) ys)) @ '',''"
  by (induction ys arbitrary: x) auto

lemma close_array:
  assumes "r = ''['' @ concat (map (\<lambda>x. x @ '','') xs)"
  shows "(if length r = 1 then ''[]'' else take (length r - 1) r @ '']'') = json_array xs"
proof (cases xs)
  case Nil
  then show ?thesis using assms by simp
next
  case (Cons x ys)
  have "r = (''['' @ x @ concat (map (\<lambda>y. CHR '','' # y) ys)) @ '',''"
    using assms Cons concat_commas [of x ys] by simp
  then show ?thesis
    using Cons by simp
qed

lemma get_supplyItems_result:
  "get_supplyItems stub caller =
     (if get_fails stub ''supplyItemIDs'' then Inl (Error ''Unable to get supplyItemIDs'')
      else if snd (Unmarshal_Holder (bytes_of (State stub ''supplyItemIDs'')) zero_SupplyItemIDs_Holder) \<noteq> None
        then Inl (Error ''Corrupt SupplyItemIDs_Holder'')
      else if list_ex (\<lambda>supplyItemID. snd (retrieve_SupplyItem stub supplyItemID) \<noteq> None) (index_ids stub)
        then Inl (Error ''Failed to retrieve SupplyItemID'')
      else Inr (Some (listVisible stub caller)))"
proof (cases "get_fails stub ''supplyItemIDs''")
  case True
  then show ?thesis by (simp add: get_supplyItems_def GetState_def)
next
  case False
  obtain h e where u: "Unmarshal_Holder (bytes_of (State stub ''supplyItemIDs'')) zero_SupplyItemIDs_Holder = (h, e)"
    by (cases "Unmarshal_Holder (bytes_of (State stub ''supplyItemIDs'')) zero_SupplyItemIDs_Holder")
  have ids: "index_ids stub = SupplyItemIDs h"
    using u by (simp add: index_ids_def)
  show ?thesis
  proof (cases "e = None")
    case e: True
    define xs where "xs = map Marshal_SupplyItem (filter (\<lambda>v. OwnerID v = caller)
        (map (\<lambda>supplyItemID. fst (retrieve_SupplyItem stub supplyItemID)) (SupplyItemIDs h)))"
    define r where "r = ''['' @ concat (map (\<lambda>x. x @ '','') xs)"
    have g: "get_supplyItems stub caller =
        (case get_supplyItems_loop stub caller (SupplyItemIDs h) ''['' of
           Inl e \<Rightarrow> Inl e
         | Inr result \<Rightarrow>
             Inr (Some (if length result = 1 then ''[]''
                        else take (length result - 1) result @ '']'')))"
      using False u e by (simp add: get_supplyItems_def GetState_def)
    have lv: "listVisible stub caller = json_array xs"
      by (simp add: listVisible_def indexed_records_def ids xs_def)
    show ?thesis
    proof (cases "list_ex (\<lambda>supplyItemID. snd (retrieve_SupplyItem stub supplyItemID) \<noteq> None)
        (SupplyItemIDs h)")
      case True
      then have "get_supplyItems_loop stub caller (SupplyItemIDs h) ''[''
          = Inl (Error ''Failed to retrieve SupplyItemID'')"
        by (simp only: loop_result if_True)
      then show ?thesis
        using False u e True by (simp add: g ids)
    next
      case no: False
      have "get_supplyItems_loop stub caller (SupplyItemIDs h) ''['' = Inr r"
        unfolding r_def xs_def using no by (simp only: loop_result if_False)
      then have "get_supplyItems stub caller
          = Inr (Some (if length r = 1 then ''[]'' else take (length r - 1) r @ '']''))"
        by (simp only: g sum.case)
      also have "\<dots> = Inr (Some (json_array xs))"
        by (simp only: close_array [OF r_def])
      finally show ?thesis
        using False u e no by (simp add: ids lv)
    qed
  next
    case e: False
    then show ?thesis
      using False u by (simp add: get_supplyItems_def GetState_def)
  qed
qed

lemma retrieve_stored:
  assumes "State stub key = Some (Marshal_SupplyItem v)" "ascii_item v" "\<not> get_fails stub key"
  shows "retrieve_SupplyItem stub key = (v, None)"
  using assms
  by (simp add: retrieve_SupplyItem_def GetState_def bytes_of_def Unmarshal_Marshal_SupplyItem)




lemma Init_result:
  "Init stub function args =
     (if put_fails stub ''supplyItemIDs'' (Marshal_Holder zero_SupplyItemIDs_Holder) then stub
      else stub\<lparr>State := (State stub)(''supplyItemIDs'' \<mapsto> Marshal_Holder zero_SupplyItemIDs_Holder)\<rparr>,
      Inr None)"
  by (simp add: Init_def PutState_def)

lemma Marshal_zero_Holder: \<open>Marshal_Holder zero_SupplyItemIDs_Holder = ''{"supplyitemids":null}''\<close>
  by (simp add: Marshal_Holder_def zero_SupplyItemIDs_Holder_def)

lemma Init_again:
  assumes "\<not> put_fails stub ''supplyItemIDs'' (Marshal_Holder zero_SupplyItemIDs_Holder)"
    and "\<not> get_fails stub ''supplyItemIDs''"
    and "Init stub function args = (stub1, r)"
  shows \<open>r = Inr None
    \<and> State stub1 ''supplyItemIDs'' = Some ''{"supplyitemids":null}''
    \<and> index_ids stub1 = []
    \<and> (\<forall>key. key \<noteq> ''supplyItemIDs'' \<longrightarrow> State stub1 key = State stub key)
    \<and> (\<forall>caller. get_supplyItems stub1 caller = Inr (Some ''[]''))\<close>
proof -
  have st: "stub1 = stub\<lparr>State := (State stub)(''supplyItemIDs'' \<mapsto> Marshal_Holder zero_SupplyItemIDs_Holder)\<rparr>"
    and r: "r = Inr None"
    using assms(1,3) by (auto simp: Init_result)
  have um: "Unmarshal_Holder (Marshal_Holder zero_SupplyItemIDs_Holder) zero_SupplyItemIDs_Holder
      = (zero_SupplyItemIDs_Holder, None)"
    by (rule Unmarshal_Marshal_Holder) (simp add: zero_SupplyItemIDs_Holder_def)
  have ids: "index_ids stub1 = []"
    by (simp add: index_ids_def st bytes_of_def um) (simp add: zero_SupplyItemIDs_Holder_def)
  have "get_supplyItems stub1 caller = Inr (Some ''[]'')" for caller
    using assms(2) ids
    by (simp add: get_supplyItems_result listVisible_def indexed_records_def)
       (simp add: st bytes_of_def um)
  then show ?thesis
    using r ids by (simp add: st Marshal_zero_Holder)
qed

section \<open>The variant without ownership: codec and update\<close>

lemma find_field_keys_000:
  "find_field SupplyItem_000_tags ''SupplyItemID'' = Some ''supplyItemID''"
  "find_field SupplyItem_000_tags ''SupplierID'' = Some ''supplierID''"
  "find_field SupplyItem_000_tags ''OperatorID'' = Some ''operatorID''"
  "find_field SupplyItem_000_tags ''Longitude'' = Some ''longitude''"
  "find_field SupplyItem_000_tags ''Latitude'' = Some ''latitude''"
  "find_field SupplyItem_000_tags ''Description'' = Some ''description''"
  "find_field SupplyItem_000_tags ''MaterialType'' = Some ''materialType''"
  "find_field SupplyItem_000_tags ''MaterialQty'' = None"
  "find_field SupplyItem_000_tags ''UnitOfMeasure'' = Some ''unitOfMeasure''"
  "find_field SupplyItem_000_tags ''Photo'' = Some ''photo''"
  by code_simp+

lemma find_field_tags_000:
  "find_field SupplyItem_000_tags ''supplierID'' = Some ''supplierID''"
  "find_field SupplyItem_000_tags ''operatorID'' = Some ''operatorID''"
  "find_field SupplyItem_000_tags ''longitude'' = Some ''longitude''"
  "find_field SupplyItem_000_tags ''latitude'' = Some ''latitude''"
  "find_field SupplyItem_000_tags ''description'' = Some ''description''"
  "find_field SupplyItem_000_tags ''materialType'' = Some ''materialType''"
  "find_field SupplyItem_000_tags ''materialQuantity'' = Some ''materialQuantity''"
  "find_field SupplyItem_000_tags ''unitOfMeasure'' = Some ''unitOfMeasure''"
  "find_field SupplyItem_000_tags ''photo'' = Some ''photo''"
  "find_field SupplyItem_000_tags ''supplyItemID'' = Some ''supplyItemID''"
  by code_simp+

lemma lex_create_json_000:
  assumes "plain a0" "plain a1" "plain a2" "plain a3" "plain a4" "plain a5" "plain a6" "plain a7"
    "plain a8" "plain a9"
  shows \<open>lex (''{'' @ (''"SupplyItemID":"'' @ a0 @ ''", '')
     @ (''"SupplierID":"'' @ a1 @ ''", '')
     @ (''"OperatorID":"'' @ a2 @ ''", '')
     @ (''"Longitude":"'' @ a3 @ ''", '')
     @ (''"Latitude":"'' @ a4 @ ''", '')
     @ (''"Description":"'' @ a5 @ ''", '')
     @ (''"MaterialType":"'' @ a6 @ ''", '')
     @ (''"MaterialQty":"'' @ a7 @ ''", '')
     @ (''"UnitOfMeasure":"'' @ a8 @ ''", '')
     @ (''"Photo":"'' @ a9 @ ''"'') @ ''}'') =
    Some [TLBrace, TString ''SupplyItemID'', TColon, TString a0, TComma,
      TString ''SupplierID'', TColon, TString a1, TComma,
      TString ''OperatorID'', TColon, TString a2, TComma,
      TString ''Longitude'', TColon, TString a3, TComma,
      TString ''Latitude'', TColon, TString a4, TComma,
      TString ''Description'', TColon, TString a5, TComma,
      TString ''MaterialType'', TColon, TString a6, TComma,
      TString ''MaterialQty'', TColon, TString a7, TComma,
      TString ''UnitOfMeasure'', TColon, TString a8, TComma,
      TString ''Photo'', TColon, TString a9, TRBrace]\<close>
  using assms
  by (simp add: lex_string_plain isSpace_def isDigit_def between_def dquote_def backslash_def
      cons_token_def prepend_def)

lemma Unmarshal_create_json_000:
  assumes "plain a0" "plain a1" "plain a2" "plain a3" "plain a4" "plain a5" "plain a6" "plain a7"
    "plain a8" "plain a9"
  shows \<open>Unmarshal_SupplyItem_000 (''{'' @ (''"SupplyItemID":"'' @ a0 @ ''", '')
     @ (''"SupplierID":"'' @ a1 @ ''", '')
     @ (''"OperatorID":"'' @ a2 @ ''", '')
     @ (''"Longitude":"'' @ a3 @ ''", '')
     @ (''"Latitude":"'' @ a4 @ ''", '')
     @ (''"Description":"'' @ a5 @ ''", '')
     @ (''"MaterialType":"'' @ a6 @ ''", '')
     @ (''"MaterialQty":"'' @ a7 @ ''", '')
     @ (''"UnitOfMeasure":"'' @ a8 @ ''", '')
     @ (''"Photo":"'' @ a9 @ ''"'') @ ''}'') zero_SupplyItem_000 =
    (\<lparr>SupplierID_000 = a1, OperatorID_000 = a2, Longitude_000 = a3,
     Latitude_000 = a4, Description_000 = a5, MaterialType_000 = a6, MaterialQty_000 = [],
     UnitOfMeasure_000 = a8, Photo_000 = a9, SupplyItemID_000 = a0\<rparr>, None)\<close>
  unfolding Unmarshal_SupplyItem_000_def decode_def lex_create_json_000 [OF assms]
  by (simp add: find_field_keys_000 set_field_000_def zero_SupplyItem_000_def)

lemma lex_Marshal_SupplyItem_000:
  assumes "ascii_item_000 v"
  shows "lex (Marshal_SupplyItem_000 v) =
    Some [TLBrace, TString ''supplierID'', TColon, TString (SupplierID_000 v), TComma,
      TString ''operatorID'', TColon, TString (OperatorID_000 v), TComma,
      TString ''longitude'', TColon, TString (Longitude_000 v), TComma,
      TString ''latitude'', TColon, TString (Latitude_000 v), TComma,
      TString ''description'', TColon, TString (Description_000 v), TComma,
      TString ''materialType'', TColon, TString (MaterialType_000 v), TComma,
      TString ''materialQuantity'', TColon, TString (MaterialQty_000 v), TComma,
      TString ''unitOfMeasure'', TColon, TString (UnitOfMeasure_000 v), TComma,
      TString ''photo'', TColon, TString (Photo_000 v), TComma,
      TString ''supplyItemID'', TColon, TString (SupplyItemID_000 v), TRBrace]"
  using assms
  by (simp add: Marshal_SupplyItem_000_def encode_string_def ascii_item_000_def
      lex_string_encode_chars isSpace_def isDigit_def between_def dquote_def backslash_def
      cons_token_def prepend_def)

lemma Unmarshal_Marshal_SupplyItem_000:
  assumes "ascii_item_000 v"
  shows "Unmarshal_SupplyItem_000 (Marshal_SupplyItem_000 v) w = (v, None)"
  unfolding Unmarshal_SupplyItem_000_def decode_def lex_Marshal_SupplyItem_000 [OF assms]
  by (simp add: find_field_tags_000 set_field_000_def)

lemma plain_args_000_nth: "plain_args_000 args \<Longrightarrow> i < 10 \<Longrightarrow> plain (args ! i)"
  by (auto simp: plain_args_000_def list_all_length)

lemma create_supplyItem_000_plain:
  assumes "plain_args_000 args"
  shows "create_supplyItem_000 stub args =
     (let sItem1 = created_item_000 args;
          (record, err) = GetState stub (SupplyItemID_000 sItem1)
      in if record \<noteq> None then (stub, Inl (Error ''SupplyItem already exists''))
         else
           let (stub1, saved, err1) = save_changes_000 stub sItem1
           in if err1 \<noteq> None then (stub1, Inl (Error ''Error saving changes''))
              else
                let (bytes, err2) = GetState stub1 ''supplyItemIDs''
                in if err2 \<noteq> None then (stub1, Inl (Error ''Unable to get supplyItemIDs''))
                   else
                     let (supplyItemIDsHolder, err3) =
                           Unmarshal_Holder (bytes_of bytes) zero_SupplyItemIDs_Holder
                     in if err3 \<noteq> None then
                          (stub1, Inl (Error ''Corrupt SupplyItemIDs_Holder record''))
                        else
                          let holder1 = supplyItemIDsHolder
                                \<lparr>SupplyItemIDs :=
                                   SupplyItemIDs supplyItemIDsHolder @ [args ! 0]\<rparr>;
                              bytes1 = Marshal_Holder holder1;
                              (stub2, err4) = PutState stub1 ''supplyItemIDs'' bytes1
                          in if err4 \<noteq> None then
                               (stub2, Inl (Error ''Unable to put the state''))
                             else (stub2, Inr None))"
proof -
  have len: "\<not> length args < 10"
    using assms by (simp add: plain_args_000_def)
  have dec: "Unmarshal_SupplyItem_000 (''{'' @ (''\"SupplyItemID\":\"'' @ args ! 0 @ ''\", '')
     @ (''\"SupplierID\":\"'' @ args ! 1 @ ''\", '')
     @ (''\"OperatorID\":\"'' @ args ! 2 @ ''\", '')
     @ (''\"Longitude\":\"'' @ args ! 3 @ ''\", '')
     @ (''\"Latitude\":\"'' @ args ! 4 @ ''\", '')
     @ (''\"Description\":\"'' @ args ! 5 @ ''\", '')
     @ (''\"MaterialType\":\"'' @ args ! 6 @ ''\", '')
     @ (''\"MaterialQty\":\"'' @ args ! 7 @ ''\", '')
     @ (''\"UnitOfMeasure\":\"'' @ args ! 8 @ ''\", '')
     @ (''\"Photo\":\"'' @ args ! 9 @ ''\"'') @ ''}'') zero_SupplyItem_000
       = (created_item_000 args, None)"
    unfolding created_item_000_def
    by (rule Unmarshal_create_json_000) (simp_all add: plain_args_000_nth [OF assms])
  show ?thesis
    unfolding create_supplyItem_000_def
    using len
    by (simp only: if_False Let_def dec) simp
qed

lemma retrieve_stored_000:
  assumes "State stub key = Some (Marshal_SupplyItem_000 v)" "ascii_item_000 v" "\<not> get_fails stub key"
  shows "retrieve_SupplyItem_000 stub key = (v, None)"
  using assms
  by (simp add: retrieve_SupplyItem_000_def GetState_def bytes_of_def
      Unmarshal_Marshal_SupplyItem_000)




section \<open>The scenario of the specification\<close>

lemma create_supplyItem_reliable:
  assumes p: "plain_args args"
    and idx: "State stub ''supplyItemIDs'' = Some (Marshal_Holder \<lparr>SupplyItemIDs = ids\<rparr>)"
    and asc: "list_all ascii ids"
    and free: "State stub (args ! 0) = None"
    and g: "get_fails stub = (\<lambda>k. False)" and pf: "put_fails stub = (\<lambda>k v. False)"
  shows "create_supplyItem stub args =
     (stub\<lparr>State := (State stub)(args ! 0 \<mapsto> Marshal_SupplyItem (created_item args),
         ''supplyItemIDs'' \<mapsto> Marshal_Holder \<lparr>SupplyItemIDs = ids @ [args ! 0]\<rparr>)\<rparr>, Inr None)"
proof -
  have ne: "args ! 0 \<noteq> ''supplyItemIDs''"
    using idx free by auto
  have um: "Unmarshal_Holder (Marshal_Holder \<lparr>SupplyItemIDs = ids\<rparr>) zero_SupplyItemIDs_Holder
      = (\<lparr>SupplyItemIDs = ids\<rparr>, None)"
    using asc by (simp add: Unmarshal_Marshal_Holder)
  show ?thesis
    unfolding create_supplyItem_plain [OF p]
    using idx free g pf ne um
    by (simp add: GetState_def PutState_def save_changes_def Let_def created_item_def bytes_of_def)
qed

lemma plain_scenario_args: "plain_args scenario_args"
  by code_simp

lemma S1_item_eq: "created_item scenario_args = S1_item"
  by (simp add: created_item_def scenario_args_def S1_item_def)

lemma S1_bytes_eq: "Marshal_SupplyItem S1_item = S1_bytes"
  by code_simp

lemma ascii_S1_item: "ascii_item S1_item"
  by code_simp

lemma initialized_eq:
  \<open>initialized = empty_ledger\<lparr>State := [''supplyItemIDs'' \<mapsto> ''{"supplyitemids":null}'']\<rparr>\<close>
  by (simp add: initialized_def Init_result empty_ledger_def Marshal_zero_Holder)

lemma create_S1:
  \<open>create_supplyItem initialized scenario_args =
     (empty_ledger\<lparr>State := [''S1'' \<mapsto> S1_bytes, ''supplyItemIDs'' \<mapsto> ''{"supplyitemids":["S1"]}'']\<rparr>,
      Inr None)\<close>
proof -
  have m: \<open>Marshal_Holder \<lparr>SupplyItemIDs = [''S1'']\<rparr> = ''{"supplyitemids":["S1"]}''\<close>
    by code_simp
  have "create_supplyItem initialized scenario_args =
     (initialized\<lparr>State := (State initialized)(scenario_args ! 0 \<mapsto> Marshal_SupplyItem (created_item scenario_args),
         ''supplyItemIDs'' \<mapsto> Marshal_Holder \<lparr>SupplyItemIDs = [] @ [scenario_args ! 0]\<rparr>)\<rparr>, Inr None)"
    by (rule create_supplyItem_reliable [OF plain_scenario_args])
       (simp_all add: initialized_eq empty_ledger_def Marshal_Holder_def scenario_args_def)
  then show ?thesis
    by (simp add: S1_item_eq S1_bytes_eq m)
       (simp add: initialized_eq empty_ledger_def scenario_args_def m)
qed

lemma after_S1_eq:
  \<open>after_S1 = empty_ledger\<lparr>State := [''S1'' \<mapsto> S1_bytes, ''supplyItemIDs'' \<mapsto> ''{"supplyitemids":["S1"]}'']\<rparr>\<close>
  by (simp add: after_S1_def create_S1)

lemma after_S1_State:
  \<open>State after_S1 ''S1'' = Some S1_bytes\<close>
  \<open>State after_S1 ''supplyItemIDs'' = Some ''{"supplyitemids":["S1"]}''\<close>
  \<open>get_fails after_S1 = (\<lambda>k. False)\<close>
  \<open>put_fails after_S1 = (\<lambda>k v. False)\<close>
  by (simp_all add: after_S1_eq empty_ledger_def)

lemma after_S1_index: "index_ids after_S1 = [''S1'']"
proof -
  have m: \<open>''{"supplyitemids":["S1"]}'' = Marshal_Holder \<lparr>SupplyItemIDs = [''S1'']\<rparr>\<close>
    by code_simp
  have a: "list_all ascii (SupplyItemIDs \<lparr>SupplyItemIDs = [''S1'']\<rparr>)"
    by code_simp
  show ?thesis
    unfolding index_ids_def after_S1_State bytes_of_def option.case m
    by (simp only: Unmarshal_Marshal_Holder [OF a]) simp
qed

lemma after_S1_retrieve: "retrieve_SupplyItem after_S1 ''S1'' = (S1_item, None)"
  by (rule retrieve_stored) (simp_all add: after_S1_State S1_bytes_eq ascii_S1_item)

lemma after_S1_listing:
  "get_supplyItems after_S1 caller =
     Inr (Some (if caller = ''own1'' then ''['' @ S1_bytes @ '']'' else ''[]''))"
proof -
  have "Unmarshal_Holder (bytes_of (State after_S1 ''supplyItemIDs'')) zero_SupplyItemIDs_Holder
      = (\<lparr>SupplyItemIDs = index_ids after_S1\<rparr>, None)"
  proof -
    have m: \<open>''{"supplyitemids":["S1"]}'' = Marshal_Holder \<lparr>SupplyItemIDs = [''S1'']\<rparr>\<close>
      by code_simp
    have a: "list_all ascii (SupplyItemIDs \<lparr>SupplyItemIDs = [''S1'']\<rparr>)"
      by code_simp
    show ?thesis
      unfolding after_S1_index after_S1_State bytes_of_def option.case m
      by (simp only: Unmarshal_Marshal_Holder [OF a])
  qed
  then show ?thesis
    by (simp add: get_supplyItems_result after_S1_State after_S1_index after_S1_retrieve
        listVisible_def indexed_records_def S1_bytes_eq) (simp add: S1_item_def)
qed

lemma scenario_create_loses_materialQuantity:
  \<open>scenario_args ! 8 = ''5''
   \<and> create_supplyItem initialized scenario_args = (after_S1, Inr None)
   \<and> State after_S1 ''S1'' = Some ''{"supplierID":"sup1","operatorID":"op1","longitude":"10.0","latitude":"20.0","description":"desc","materialType":"metal","materialQuantity":"","unitOfMeasure":"kg","photo":"photo.jpg","supplyItemID":"S1","ownerID":"own1"}''
   \<and> MaterialQty (fst (retrieve_SupplyItem after_S1 ''S1'')) = []
   \<and> Query after_S1 ''get_supplyItems'' [''own1''] = Inr (Some ''[{"supplierID":"sup1","operatorID":"op1","longitude":"10.0","latitude":"20.0","description":"desc","materialType":"metal","materialQuantity":"","unitOfMeasure":"kg","photo":"photo.jpg","supplyItemID":"S1","ownerID":"own1"}]'')\<close>
proof -
  have "create_supplyItem initialized scenario_args = (after_S1, Inr None)"
    by (simp add: after_S1_def create_S1)
  moreover have "scenario_args ! 8 = ''5''"
    by (simp add: scenario_args_def)
  moreover have "MaterialQty (fst (retrieve_SupplyItem after_S1 ''S1'')) = []"
    by (simp add: after_S1_retrieve S1_item_def)
  ultimately show ?thesis
    by (simp add: after_S1_State Query_def after_S1_listing) (simp add: S1_bytes_def)
qed

section \<open>Arguments that carry JSON syntax\<close>




section \<open>What a successful create stores\<close>





section \<open>The variant without ownership: create\<close>







lemma create_supplyItem_000_reliable:
  assumes p: "plain_args_000 args"
    and idx: "State stub ''supplyItemIDs'' = Some (Marshal_Holder \<lparr>SupplyItemIDs = ids\<rparr>)"
    and asc: "list_all ascii ids"
    and free: "State stub (args ! 0) = None"
    and g: "get_fails stub = (\<lambda>k. False)" and pf: "put_fails stub = (\<lambda>k v. False)"
  shows "create_supplyItem_000 stub args =
     (stub\<lparr>State := (State stub)(args ! 0 \<mapsto> Marshal_SupplyItem_000 (created_item_000 args),
         ''supplyItemIDs'' \<mapsto> Marshal_Holder \<lparr>SupplyItemIDs = ids @ [args ! 0]\<rparr>)\<rparr>, Inr None)"
proof -
  have ne: "args ! 0 \<noteq> ''supplyItemIDs''"
    using idx free by auto
  have um: "Unmarshal_Holder (Marshal_Holder \<lparr>SupplyItemIDs = ids\<rparr>) zero_SupplyItemIDs_Holder
      = (\<lparr>SupplyItemIDs = ids\<rparr>, None)"
    using asc by (simp add: Unmarshal_Marshal_Holder)
  show ?thesis
    unfolding create_supplyItem_000_plain [OF p]
    using idx free g pf ne um
    by (simp add: GetState_def PutState_def save_changes_000_def Let_def created_item_000_def
        bytes_of_def)
qed

lemma plain_scenario_args_000: "plain_args_000 scenario_args_000"
  by code_simp

lemma S1_item_000_eq: "created_item_000 scenario_args_000 = S1_item_000"
  by (simp add: created_item_000_def scenario_args_000_def S1_item_000_def)

lemma S1_bytes_000_eq: "Marshal_SupplyItem_000 S1_item_000 = S1_bytes_000"
  by code_simp

lemma ascii_S1_item_000: "ascii_item_000 S1_item_000"
  by code_simp

lemma Marshal_Holder_S1: \<open>Marshal_Holder \<lparr>SupplyItemIDs = [''S1'']\<rparr> = ''{"supplyitemids":["S1"]}''\<close>
  by code_simp

lemma create_S1_000:
  \<open>create_supplyItem_000 initialized scenario_args_000 =
     (empty_ledger\<lparr>State := [''S1'' \<mapsto> S1_bytes_000, ''supplyItemIDs'' \<mapsto> ''{"supplyitemids":["S1"]}'']\<rparr>,
      Inr None)\<close>
proof -
  have "create_supplyItem_000 initialized scenario_args_000 =
     (initialized\<lparr>State := (State initialized)(scenario_args_000 ! 0 \<mapsto>
           Marshal_SupplyItem_000 (created_item_000 scenario_args_000),
         ''supplyItemIDs'' \<mapsto> Marshal_Holder \<lparr>SupplyItemIDs = [] @ [scenario_args_000 ! 0]\<rparr>)\<rparr>, Inr None)"
    by (rule create_supplyItem_000_reliable [OF plain_scenario_args_000])
       (simp_all add: initialized_eq empty_ledger_def Marshal_Holder_def scenario_args_000_def)
  then show ?thesis
    by (simp add: S1_item_000_eq S1_bytes_000_eq)
       (simp add: initialized_eq empty_ledger_def scenario_args_000_def Marshal_Holder_S1)
qed

lemma after_S1_000_State:
  \<open>State after_S1_000 ''S1'' = Some S1_bytes_000\<close>
  \<open>State after_S1_000 ''supplyItemIDs'' = Some ''{"supplyitemids":["S1"]}''\<close>
  \<open>get_fails after_S1_000 = (\<lambda>k. False)\<close>
  \<open>put_fails after_S1_000 = (\<lambda>k v. False)\<close>
  by (simp_all add: after_S1_000_def create_S1_000 empty_ledger_def)

lemma after_S1_000_retrieve: "retrieve_SupplyItem_000 after_S1_000 ''S1'' = (S1_item_000, None)"
  by (rule retrieve_stored_000) (simp_all add: after_S1_000_State S1_bytes_000_eq ascii_S1_item_000)

section \<open>C1: what a create stores\<close>





section \<open>C2: a create with an identifier that has an entry\<close>




section \<open>C3: what an update changes\<close>






section \<open>C4: the listing and the owner\<close>

text \<open>
  C4, as amended. \<^verbatim>\<open>get_supplyItems\<close> fails when the ledger get of the index fails, when
  the index does not decode, and when a record named by the index cannot be retrieved.
  Every other call succeeds, and its result is the JSON array of the encodings of the
  records the index names whose ownerID is the caller, in the order of the index. So a
  record named by the index and owned by \<open>B\<close> is in every successful listing for \<open>B\<close>, and
  in no listing for a caller other than \<open>B\<close>.
\<close>

theorem get_supplyItems_lists_owned_records:
  "get_supplyItems stub caller =
     (if get_fails stub ''supplyItemIDs'' then Inl (Error ''Unable to get supplyItemIDs'')
      else if snd (Unmarshal_Holder (bytes_of (State stub ''supplyItemIDs''))
                     zero_SupplyItemIDs_Holder) \<noteq> None
        then Inl (Error ''Corrupt SupplyItemIDs_Holder'')
      else if list_ex (\<lambda>supplyItemID. snd (retrieve_SupplyItem stub supplyItemID) \<noteq> None)
                (index_ids stub)
        then Inl (Error ''Failed to retrieve SupplyItemID'')
      else Inr (Some (json_array (map Marshal_SupplyItem
                  (filter (\<lambda>v. OwnerID v = caller)
                     (map (\<lambda>supplyItemID. fst (retrieve_SupplyItem stub supplyItemID))
                        (index_ids stub)))))))"
  by (simp add: get_supplyItems_result listVisible_def indexed_records_def)

lemma after_S1_index_decodes:
  "snd (Unmarshal_Holder (bytes_of (State after_S1 ''supplyItemIDs'')) zero_SupplyItemIDs_Holder)
     = None"
proof -
  have a: "list_all ascii (SupplyItemIDs \<lparr>SupplyItemIDs = [''S1'']\<rparr>)"
    by code_simp
  show ?thesis
    unfolding after_S1_State bytes_of_def option.case Marshal_Holder_S1 [symmetric]
    by (simp only: Unmarshal_Marshal_Holder [OF a] snd_conv)
qed

theorem get_supplyItems_lists_owned_records_witness:
  \<open>Query after_S1 ''get_supplyItems'' [''own1''] = Inr (Some ''[{"supplierID":"sup1","operatorID":"op1","longitude":"10.0","latitude":"20.0","description":"desc","materialType":"metal","materialQuantity":"","unitOfMeasure":"kg","photo":"photo.jpg","supplyItemID":"S1","ownerID":"own1"}]'')
   \<and> Query after_S1 ''get_supplyItems'' [''own2''] = Inr (Some ''[]'')\<close>
proof -
  have o: "OwnerID S1_item = ''own1''"
    by (simp add: S1_item_def)
  have g: "\<not> get_fails after_S1 ''supplyItemIDs''"
    by (simp add: after_S1_State)
  have d: "\<not> snd (Unmarshal_Holder (bytes_of (State after_S1 ''supplyItemIDs''))
                     zero_SupplyItemIDs_Holder) \<noteq> None"
    using after_S1_index_decodes by simp
  have l: "\<not> list_ex (\<lambda>supplyItemID. snd (retrieve_SupplyItem after_S1 supplyItemID) \<noteq> None)
                (index_ids after_S1)"
    by (simp add: after_S1_index after_S1_retrieve)
  have "get_supplyItems after_S1 caller =
      Inr (Some (json_array (map Marshal_SupplyItem
                  (filter (\<lambda>v. OwnerID v = caller)
                     (map (\<lambda>supplyItemID. fst (retrieve_SupplyItem after_S1 supplyItemID))
                        (index_ids after_S1))))))" for caller
    using get_supplyItems_lists_owned_records [of after_S1 caller] g d l
    by (simp only: if_False)
  then show ?thesis
    by (simp add: Query_def after_S1_index after_S1_retrieve o S1_bytes_eq)
       (simp add: S1_bytes_def)
qed

text \<open>The claim C4 as stated fails for a stored record that the index does not name: after
  a second \<^verbatim>\<open>Init\<close> the record \<open>S1\<close> of the owner \<open>own1\<close> is still stored, and the listing for
  \<open>own1\<close> succeeds with the empty array.\<close>

theorem listing_after_second_Init_counterexample:
  "create_supplyItem initialized scenario_args = (after_S1, Inr None)
   \<and> Init after_S1 ''init'' [] = (after_second_Init, Inr None)
   \<and> retrieve_SupplyItem after_second_Init ''S1'' = (S1_item, None)
   \<and> OwnerID S1_item = ''own1''
   \<and> get_supplyItems after_second_Init ''own1'' = Inr (Some ''[]'')"
proof -
  have c: "create_supplyItem initialized scenario_args = (after_S1, Inr None)"
    by (simp add: after_S1_def create_S1)
  have i: "Init after_S1 ''init'' [] = (after_second_Init, Inr None)"
    by (simp add: after_second_Init_def Init_result)
  have p: "\<not> put_fails after_S1 ''supplyItemIDs'' (Marshal_Holder zero_SupplyItemIDs_Holder)"
    and g: "\<not> get_fails after_S1 ''supplyItemIDs''"
    by (simp_all add: after_S1_State)
  note a = Init_again [OF p g i]
  have s: "State after_second_Init ''S1'' = Some (Marshal_SupplyItem S1_item)"
    using a by (simp add: after_S1_State S1_bytes_eq)
  have "\<not> get_fails after_second_Init ''S1''"
    by (simp add: after_second_Init_def Init_result after_S1_State)
  then have r: "retrieve_SupplyItem after_second_Init ''S1'' = (S1_item, None)"
    by (rule retrieve_stored [OF s ascii_S1_item])
  show ?thesis
    using c i r a by (simp add: S1_item_def)
qed

section \<open>C5: the index and the keys of the records\<close>




section \<open>C6: Init and the failure of the ledger put\<close>

lemma Init_reports_success: "snd (Init stub function args) = Inr None"
  by (simp add: Init_def Let_def split: prod.split)

text \<open>
  C6. The claim: whenever the ledger put of the empty index record reports failure, the
  initialize operation fails with IndexWriteFailed. On the ledger whose put always fails,
  the put of the index record reports a failure, nothing is written, and \<^verbatim>\<open>Init\<close> returns
  \<^verbatim>\<open>nil, nil\<close> all the same.
\<close>

theorem Init_swallows_put_failure:
  "snd (PutState readonly_ledger ''supplyItemIDs'' (Marshal_Holder zero_SupplyItemIDs_Holder))
     = Some ''PutState failed''
   \<and> Init readonly_ledger ''init'' [] = (readonly_ledger, Inr None)"
  by (simp add: Init_def PutState_def readonly_ledger_def)

section \<open>C7: short argument lists\<close>

text \<open>
  C7. The claim: a create with fewer arguments than the variant's count, and an update with
  fewer than two, fail with InvalidArguments rather than crash. Neither \<^verbatim>\<open>Invoke\<close> nor
  \<^verbatim>\<open>create_supplyItem\<close> looks at the length of the argument list: a create with fewer than
  eleven arguments (ten in the variant without ownership) panics with an index out of
  range and leaves the ledger as it was, and so does an update with no argument, and an
  update with one argument whose record is retrieved without error.
\<close>

theorem short_argument_list_panics:
  "(length args < 11 \<longrightarrow>
      Invoke stub ''create_supplyItem'' args
        = (stub, Inl (Panic ''runtime error: index out of range'')))
   \<and> (length args < 10 \<longrightarrow>
      Invoke_000 stub ''create_supplyItem'' args
        = (stub, Inl (Panic ''runtime error: index out of range'')))
   \<and> Invoke stub ''update_supplyItem'' [] = (stub, Inl (Panic ''runtime error: index out of range''))
   \<and> Invoke_000 stub ''update_supplyItem'' []
        = (stub, Inl (Panic ''runtime error: index out of range''))
   \<and> (snd (retrieve_SupplyItem stub supplyItemID) = None \<longrightarrow>
      Invoke stub ''update_supplyItem'' [supplyItemID]
        = (stub, Inl (Panic ''runtime error: index out of range'')))
   \<and> (snd (retrieve_SupplyItem_000 stub0 supplyItemID0) = None \<longrightarrow>
      Invoke_000 stub0 ''update_supplyItem'' [supplyItemID0]
        = (stub0, Inl (Panic ''runtime error: index out of range'')))"
  by (simp add: Invoke_def Invoke_000_def create_supplyItem_def create_supplyItem_000_def
      index_out_of_range_def split: prod.splits)

theorem short_argument_list_panics_witness:
  "length [''S1'', ''sup1''] < 11
   \<and> Invoke after_S1 ''create_supplyItem'' [''S1'', ''sup1'']
        = (after_S1, Inl (Panic ''runtime error: index out of range''))
   \<and> Invoke_000 after_S1 ''create_supplyItem'' [''S1'', ''sup1'']
        = (after_S1, Inl (Panic ''runtime error: index out of range''))
   \<and> snd (retrieve_SupplyItem after_S1 ''S1'') = None
   \<and> Invoke after_S1 ''update_supplyItem'' [''S1'']
        = (after_S1, Inl (Panic ''runtime error: index out of range''))
   \<and> snd (retrieve_SupplyItem_000 after_S1_000 ''S1'') = None
   \<and> Invoke_000 after_S1_000 ''update_supplyItem'' [''S1'']
        = (after_S1_000, Inl (Panic ''runtime error: index out of range''))"
  using short_argument_list_panics [of "[''S1'', ''sup1'']" after_S1 "''S1''" after_S1_000 "''S1''"]
  by (simp add: after_S1_retrieve after_S1_000_retrieve)

section \<open>C8: the empty identifier\<close>

lemma create_empty_id:
  "create_supplyItem initialized empty_id_args =
     (initialized\<lparr>State := (State initialized)([] \<mapsto> Marshal_SupplyItem (created_item empty_id_args),
         ''supplyItemIDs'' \<mapsto> Marshal_Holder \<lparr>SupplyItemIDs = [[]]\<rparr>)\<rparr>, Inr None)"
proof -
  have p: "plain_args empty_id_args"
    by code_simp
  have "create_supplyItem initialized empty_id_args =
     (initialized\<lparr>State := (State initialized)(empty_id_args ! 0 \<mapsto>
           Marshal_SupplyItem (created_item empty_id_args),
         ''supplyItemIDs'' \<mapsto> Marshal_Holder \<lparr>SupplyItemIDs = [] @ [empty_id_args ! 0]\<rparr>)\<rparr>, Inr None)"
    by (rule create_supplyItem_reliable [OF p])
       (simp_all add: initialized_eq empty_ledger_def Marshal_Holder_def empty_id_args_def)
  then show ?thesis
    by (simp add: empty_id_args_def)
qed

lemma create_empty_id_000:
  "create_supplyItem_000 initialized empty_id_args_000 =
     (initialized\<lparr>State := (State initialized)([] \<mapsto>
           Marshal_SupplyItem_000 (created_item_000 empty_id_args_000),
         ''supplyItemIDs'' \<mapsto> Marshal_Holder \<lparr>SupplyItemIDs = [[]]\<rparr>)\<rparr>, Inr None)"
proof -
  have p: "plain_args_000 empty_id_args_000"
    by code_simp
  have "create_supplyItem_000 initialized empty_id_args_000 =
     (initialized\<lparr>State := (State initialized)(empty_id_args_000 ! 0 \<mapsto>
           Marshal_SupplyItem_000 (created_item_000 empty_id_args_000),
         ''supplyItemIDs'' \<mapsto> Marshal_Holder \<lparr>SupplyItemIDs = [] @ [empty_id_args_000 ! 0]\<rparr>)\<rparr>, Inr None)"
    by (rule create_supplyItem_000_reliable [OF p])
       (simp_all add: initialized_eq empty_ledger_def Marshal_Holder_def empty_id_args_000_def)
  then show ?thesis
    by (simp add: empty_id_args_000_def)
qed

text \<open>
  C8. The claim: a create whose first argument is the empty string fails and stores no
  record. The test for an empty identifier is on the JSON fragment built around the
  argument, which is never empty: on the initialised empty ledger the create with the
  empty identifier succeeds, stores a record whose supplyItemID is empty at the empty key
  and appends the empty identifier to the index, in both variants.
\<close>

theorem create_accepts_empty_id:
  \<open>empty_id_args ! 0 = [] \<and> length empty_id_args = 11
   \<and> create_supplyItem initialized empty_id_args = (after_empty_id, Inr None)
   \<and> State after_empty_id [] = Some ''{"supplierID":"sup1","operatorID":"op1","longitude":"10.0","latitude":"20.0","description":"desc","materialType":"metal","materialQuantity":"","unitOfMeasure":"kg","photo":"photo.jpg","supplyItemID":"","ownerID":"own1"}''
   \<and> State after_empty_id ''supplyItemIDs'' = Some ''{"supplyitemids":[""]}''
   \<and> empty_id_args_000 ! 0 = [] \<and> length empty_id_args_000 = 10
   \<and> create_supplyItem_000 initialized empty_id_args_000 = (after_empty_id_000, Inr None)
   \<and> State after_empty_id_000 [] = Some ''{"supplierID":"sup1","operatorID":"op1","longitude":"10.0","latitude":"20.0","description":"desc","materialType":"metal","materialQuantity":"","unitOfMeasure":"kg","photo":"photo.jpg","supplyItemID":""}''
   \<and> State after_empty_id_000 ''supplyItemIDs'' = Some ''{"supplyitemids":[""]}''\<close>
proof -
  have m: \<open>Marshal_SupplyItem (created_item empty_id_args) = ''{"supplierID":"sup1","operatorID":"op1","longitude":"10.0","latitude":"20.0","description":"desc","materialType":"metal","materialQuantity":"","unitOfMeasure":"kg","photo":"photo.jpg","supplyItemID":"","ownerID":"own1"}''\<close>
    by code_simp
  have m0: \<open>Marshal_SupplyItem_000 (created_item_000 empty_id_args_000) = ''{"supplierID":"sup1","operatorID":"op1","longitude":"10.0","latitude":"20.0","description":"desc","materialType":"metal","materialQuantity":"","unitOfMeasure":"kg","photo":"photo.jpg","supplyItemID":""}''\<close>
    by code_simp
  have h: \<open>Marshal_Holder \<lparr>SupplyItemIDs = [[]]\<rparr> = ''{"supplyitemids":[""]}''\<close>
    by code_simp
  have "create_supplyItem initialized empty_id_args = (after_empty_id, Inr None)"
    "create_supplyItem_000 initialized empty_id_args_000 = (after_empty_id_000, Inr None)"
    by (simp_all add: after_empty_id_def after_empty_id_000_def create_empty_id create_empty_id_000)
  moreover have "State after_empty_id [] = Some (Marshal_SupplyItem (created_item empty_id_args))"
    "State after_empty_id ''supplyItemIDs'' = Some (Marshal_Holder \<lparr>SupplyItemIDs = [[]]\<rparr>)"
    "State after_empty_id_000 [] = Some (Marshal_SupplyItem_000 (created_item_000 empty_id_args_000))"
    "State after_empty_id_000 ''supplyItemIDs'' = Some (Marshal_Holder \<lparr>SupplyItemIDs = [[]]\<rparr>)"
    by (simp_all add: after_empty_id_def after_empty_id_000_def create_empty_id create_empty_id_000)
  moreover have "empty_id_args ! 0 = []" "length empty_id_args = 11"
    "empty_id_args_000 ! 0 = []" "length empty_id_args_000 = 10"
    by (simp_all add: empty_id_args_def empty_id_args_000_def)
  ultimately show ?thesis
    by (simp only: m m0 h)
qed

section \<open>C9: read\<close>

text \<open>
  C9, as amended. \<^verbatim>\<open>read\<close> with one argument fails exactly when the ledger get reports a
  failure; otherwise it returns what the ledger holds at the key, unfiltered: the stored
  bytes when an entry exists, and nil bytes with no error when none does.
\<close>

theorem read_passes_ledger_through:
  \<open>read stub [key] =
     (if get_fails stub key
      then Inl (Error (''{"Error":"Failed to get state for '' @ key @ ''"}''))
      else Inr (State stub key))\<close>
  by (simp add: read_def GetState_def)

text \<open>The claim C9 as stated fails: no entry exists at \<open>S1\<close> in the empty ledger, and
  \<^verbatim>\<open>read\<close> returns nil bytes and no error.\<close>

theorem read_missing_key_counterexample:
  "State empty_ledger ''S1'' = None \<and> read empty_ledger [''S1''] = Inr None"
  by (simp add: read_def GetState_def empty_ledger_def)

section \<open>C10: Init on a ledger that holds records\<close>

text \<open>
  C10. When the ledger put of the index and the ledger get of the index report no failure,
  \<^verbatim>\<open>Init\<close> succeeds whatever the ledger holds, the index record is the empty one afterwards,
  every other key holds what it held before, and \<^verbatim>\<open>get_supplyItems\<close> returns the empty
  array for every caller.
\<close>

theorem Init_again_empties_index:
  assumes "\<not> put_fails stub ''supplyItemIDs'' (Marshal_Holder zero_SupplyItemIDs_Holder)"
    and "\<not> get_fails stub ''supplyItemIDs''"
    and "Init stub function args = (stub1, r)"
  shows \<open>r = Inr None
    \<and> State stub1 ''supplyItemIDs'' = Some ''{"supplyitemids":null}''
    \<and> index_ids stub1 = []
    \<and> (\<forall>key. key \<noteq> ''supplyItemIDs'' \<longrightarrow> State stub1 key = State stub key)
    \<and> (\<forall>caller. get_supplyItems stub1 caller = Inr (Some ''[]''))\<close>
  using assms by (rule Init_again)

theorem Init_again_empties_index_witness:
  \<open>\<not> put_fails after_S1 ''supplyItemIDs'' (Marshal_Holder zero_SupplyItemIDs_Holder)
   \<and> \<not> get_fails after_S1 ''supplyItemIDs''
   \<and> Init after_S1 ''init'' [] = (after_second_Init, Inr None)
   \<and> State after_S1 ''S1'' = Some S1_bytes
   \<and> get_supplyItems after_S1 ''own1'' = Inr (Some (''['' @ S1_bytes @ '']''))
   \<and> State after_second_Init ''S1'' = Some S1_bytes
   \<and> State after_second_Init ''supplyItemIDs'' = Some ''{"supplyitemids":null}''
   \<and> get_supplyItems after_second_Init ''own1'' = Inr (Some ''[]'')\<close>
proof -
  have i: "Init after_S1 ''init'' [] = (after_second_Init, Inr None)"
    by (simp add: after_second_Init_def Init_result)
  show ?thesis
    using Init_again_empties_index [of after_S1 "''init''" "[]" after_second_Init "Inr None"] i
    by (simp add: after_S1_State after_S1_listing)
qed

end
